theory Spec2Isabelle
  imports Main
begin

section \<open>Ingestion of an image list into a key-value store (utils/imagelist2lmdb.py)\<close>

text \<open>
  The module reads a manifest of image paths and labels, filters it by the label range of
  one attribute, reads every image (and mask) file, and writes one encoded record per
  entry into an LMDB database under the keys 0, 1, 2, ... followed by three metadata keys.

  What lies outside the module is taken as follows.
  \<^item> The manifest is taken after \<open>pd.read_csv\<close> and \<open>np.asarray\<close>: a list of rows, each a
    path and the integer cells of the columns 1, 2, ... that follow it. The cells are
    Python integers; \<open>astype("int")\<close> makes 64-bit signed integers of them, and the sum
    of two such integers wraps around.
  \<^item> The file system is a partial map from paths to contents; opening a missing path raises.
  \<^item> Byte strings, paths and keys are lists of 8-bit characters.
  \<^item> The serializer and the compressor behind \<open>dumps_pyarrow\<close> are parameters.
  \<^item> The database is the list of committed puts (a later put of a key shadows an earlier
    one), the puts staged in the open transaction, and the trace of calls made on it.
  \<^item> The database at the destination is opened as it is found: a run starts from any
    database, empty or not. Every call on it can raise; the writer is given once on a
    database whose calls all succeed and once with the calls that raise as a parameter.
  \<^item> The loader is iterated in its default configuration (batches of one sample, in index
    order); the destination path and the number of workers do not occur in the model.
\<close>

subsection \<open>Errors and Python values\<close>

datatype error =
    KeyError string
  | IndexError
  | ValueError
  | FileNotFoundError string
  | AttributeError string
  | UnboundLocalError string
  | ZeroDivisionError
  | OverflowError
  | LmdbError

type_synonym bytes = string

datatype pyobj =
    PyInt int
  | PyBytes bytes
  | PyTuple "pyobj list"
  | PyList "pyobj list"

subsection \<open>Paths and keys\<close>

text \<open>\<open>os.path.join\<close> of two components on a POSIX system.\<close>

definition path_join :: "string \<Rightarrow> string \<Rightarrow> string" where
  "path_join a b =
     (if (case b of [] \<Rightarrow> False | c # _ \<Rightarrow> c = CHR ''/'') then b
      else if a = [] \<or> last a = CHR ''/'' then a @ b
      else a @ ''/'' @ b)"

text \<open>\<open>"{}".format(idx).encode("ascii")\<close> for a non-negative index: its decimal digits.\<close>

fun format_nat :: "nat \<Rightarrow> bytes" where
  "format_nat n =
     (if n < 10 then [char_of (48 + n)]
      else format_nat (n div 10) @ [char_of (48 + n mod 10)])"

declare format_nat.simps [simp del]

text \<open>Reading a string of decimal digits back, used to state that keys are decimal numerals.\<close>

definition parse_nat :: "bytes \<Rightarrow> nat" where
  "parse_nat s = foldl (\<lambda>acc c. 10 * acc + (of_char c - 48)) 0 s"

subsection \<open>The manifest and the attribute tables\<close>

type_synonym row = "string \<times> int list"

datatype max_label = Finite int | Infinite

definition ATTRIBUTES :: "string \<rightharpoonup> nat" where
  "ATTRIBUTES = [''race'' \<mapsto> 1, ''gender'' \<mapsto> 2, ''age'' \<mapsto> 3, ''recognition'' \<mapsto> 1]"

definition MAX_CLASS :: "string \<rightharpoonup> max_label" where
  "MAX_CLASS = [''race'' \<mapsto> Finite 4, ''gender'' \<mapsto> Finite 1, ''age'' \<mapsto> Finite 100,
                ''recognition'' \<mapsto> Infinite]"

fun le_max :: "int \<Rightarrow> max_label \<Rightarrow> bool" where
  "le_max l (Finite m) = (l \<le> m)"
| "le_max l Infinite = True"

text \<open>The cell of column \<open>k \<ge> 1\<close> of a row; column 0 is the path.\<close>

definition cell :: "nat \<Rightarrow> row \<Rightarrow> int" where
  "cell k r = snd r ! (k - 1)"

text \<open>The values of a 64-bit signed integer, and the value an integer wraps to.\<close>

definition in_int64 :: "int \<Rightarrow> bool" where
  "in_int64 x = (- (2 ^ 63) \<le> x \<and> x < 2 ^ 63)"

definition int64_wrap :: "int \<Rightarrow> int" where
  "int64_wrap x = (x + 2 ^ 63) mod 2 ^ 64 - 2 ^ 63"

text \<open>
  \<open>image_names[:, attribute].astype("int")\<close>: indexing a column the array does not have
  raises IndexError, the path column does not convert to integers, and a cell that is
  not a 64-bit signed integer raises OverflowError.
\<close>

definition column :: "nat \<Rightarrow> row list \<Rightarrow> error + int list" where
  "column k rows =
     (if k = 0 then Inl ValueError
      else if \<not> list_all (\<lambda>r. k \<le> length (snd r)) rows then Inl IndexError
      else if \<not> list_all (\<lambda>r. in_int64 (cell k r)) rows then Inl OverflowError
      else Inr (map (cell k) rows))"

text \<open>\<open>np.max\<close> of a one-dimensional integer array; the empty array has no maximum.\<close>

fun np_max :: "int list \<Rightarrow> error + int" where
  "np_max [] = Inl ValueError"
| "np_max (x # xs) = Inr (fold max xs x)"

subsection \<open>The dataset\<close>

text \<open>
  The attribute \<open>masks\<close> of the dataset object is assigned a list, assigned \<open>None\<close>, or
  (when no source root is given) never assigned.
\<close>

datatype masks_attr = MasksUnset | MasksNone | MasksList "string list"

record ImageListRaw =
  samples :: "string list"
  masks :: masks_attr
  targets :: "int list"
  classnum :: int

definition mask_name :: "string \<Rightarrow> string" where
  "mask_name image_name = take (length image_name - 4) image_name @ ''_mask.png''"

definition ImageListRaw_init ::
  "string \<Rightarrow> string option \<Rightarrow> string option \<Rightarrow> row list \<Rightarrow> error + ImageListRaw" where
  "ImageListRaw_init attribute_name source mask_source image_list =
     (case ATTRIBUTES attribute_name of
        None \<Rightarrow> Inl (KeyError attribute_name)
      | Some attribute \<Rightarrow>
     (case MAX_CLASS attribute_name of
        None \<Rightarrow> Inl (KeyError attribute_name)
      | Some max_class \<Rightarrow>
     (case column attribute image_list of
        Inl e \<Rightarrow> Inl e
      | Inr _ \<Rightarrow>
        let image_names = filter (\<lambda>r. cell attribute r \<ge> 0) image_list;
            image_names = filter (\<lambda>r. le_max (cell attribute r) max_class) image_names;
            smps = (case source of
                      Some s \<Rightarrow> map (\<lambda>image_name. path_join s image_name) (map fst image_names)
                    | None \<Rightarrow> map fst image_names);
            msks = (case source of
                      Some s \<Rightarrow>
                        (case mask_source of
                           Some m \<Rightarrow>
                             MasksList (map mask_name
                               (map (\<lambda>image_name. path_join m image_name) (map fst image_names)))
                         | None \<Rightarrow> MasksNone)
                    | None \<Rightarrow> MasksUnset);
            tgts = map (cell attribute) image_names
        in (case np_max tgts of
              Inl e \<Rightarrow> Inl e
            | Inr mx \<Rightarrow>
                Inr \<lparr>samples = smps, masks = msks, targets = tgts,
                     classnum = (if attribute_name = ''age'' then mx
                                 else int64_wrap (mx + 1))\<rparr>))))"

definition len :: "ImageListRaw \<Rightarrow> nat" where
  "len ds = length (samples ds)"

type_synonym item = "bytes \<times> int \<times> bytes option"

text \<open>
  \<open>__getitem__\<close>: the local \<open>mask\<close> is assigned only inside the test that \<open>self.masks\<close> is
  not \<open>None\<close>, and the return statement reads it in every case.
\<close>

definition getitem :: "(string \<rightharpoonup> bytes) \<Rightarrow> ImageListRaw \<Rightarrow> nat \<Rightarrow> error + item" where
  "getitem files ds index =
     (if index \<ge> length (samples ds) then Inl IndexError
      else case files (samples ds ! index) of
        None \<Rightarrow> Inl (FileNotFoundError (samples ds ! index))
      | Some img \<Rightarrow>
          (case masks ds of
             MasksUnset \<Rightarrow> Inl (AttributeError ''masks'')
           | MasksNone \<Rightarrow> Inl (UnboundLocalError ''mask'')
           | MasksList ms \<Rightarrow>
               (if index \<ge> length ms then Inl IndexError
                else case files (ms ! index) of
                  None \<Rightarrow> Inl (FileNotFoundError (ms ! index))
                | Some msk \<Rightarrow> Inr (img, targets ds ! index, Some msk))))"

text \<open>
  Iterating the loader: sample \<open>i\<close> is resolved when the loop reaches it, so the iterator is
  the list of the outcomes of \<open>__getitem__\<close> in index order.
\<close>

definition CustomRawLoader_iter :: "(string \<rightharpoonup> bytes) \<Rightarrow> ImageListRaw \<Rightarrow> (error + item) list" where
  "CustomRawLoader_iter files ds = map (getitem files ds) [0..<len ds]"

subsection \<open>Encoding\<close>

record codec =
  serialize :: "pyobj \<Rightarrow> bytes"
  compress :: "bytes \<Rightarrow> bytes"

definition dumps_pyarrow :: "codec \<Rightarrow> pyobj \<Rightarrow> bytes" where
  "dumps_pyarrow c obj = compress c (serialize c obj)"

subsection \<open>The database\<close>

datatype event = EvOpen nat | EvBegin | EvPut bytes bytes | EvCommit | EvSync | EvClose

record lmdb =
  store :: "(bytes \<times> bytes) list"
  txn :: "(bytes \<times> bytes) list"
  events :: "event list"

definition lmdb_open :: "nat \<Rightarrow> lmdb \<Rightarrow> lmdb" where
  "lmdb_open map_size db = db\<lparr>events := events db @ [EvOpen map_size]\<rparr>"

definition db_begin :: "lmdb \<Rightarrow> lmdb" where
  "db_begin db = db\<lparr>txn := [], events := events db @ [EvBegin]\<rparr>"

definition txn_put :: "bytes \<Rightarrow> bytes \<Rightarrow> lmdb \<Rightarrow> lmdb" where
  "txn_put k v db = db\<lparr>txn := txn db @ [(k, v)], events := events db @ [EvPut k v]\<rparr>"

definition txn_commit :: "lmdb \<Rightarrow> lmdb" where
  "txn_commit db = db\<lparr>store := store db @ txn db, txn := [], events := events db @ [EvCommit]\<rparr>"

definition db_sync :: "lmdb \<Rightarrow> lmdb" where
  "db_sync db = db\<lparr>events := events db @ [EvSync]\<rparr>"

definition db_close :: "lmdb \<Rightarrow> lmdb" where
  "db_close db = db\<lparr>events := events db @ [EvClose]\<rparr>"

text \<open>What a reader finds under a key: the last committed put of it.\<close>

definition db_get :: "lmdb \<Rightarrow> bytes \<rightharpoonup> bytes" where
  "db_get db k = map_of (rev (store db)) k"

subsection \<open>The writer\<close>

text \<open>The record written for one sample: a triple with the mask, a pair without it.\<close>

definition record_obj :: "item \<Rightarrow> pyobj" where
  "record_obj data =
     (case data of (img, label, msk) \<Rightarrow>
        (case msk of
           Some m \<Rightarrow> PyTuple [PyBytes img, PyInt label, PyBytes m]
         | None \<Rightarrow> PyTuple [PyBytes img, PyInt label]))"

text \<open>
  The loop over \<open>enumerate(data_loader)\<close>. It returns the last value of \<open>idx\<close> (none when
  the body never ran) or the exception that ended it, with the database as it then is.
\<close>

fun write_loop ::
  "codec \<Rightarrow> int \<Rightarrow> (nat \<times> (error + item)) list \<Rightarrow> nat option \<Rightarrow> lmdb \<Rightarrow> (error + nat option) \<times> lmdb" where
  "write_loop c write_frequency [] prev db = (Inr prev, db)"
| "write_loop c write_frequency ((idx, Inl e) # rest) prev db = (Inl e, db)"
| "write_loop c write_frequency ((idx, Inr data) # rest) prev db =
     (let db1 = txn_put (format_nat idx) (dumps_pyarrow c (record_obj data)) db
      in if write_frequency = 0 then (Inl ZeroDivisionError, db1)
         else if int idx mod write_frequency = 0
              then write_loop c write_frequency rest (Some idx) (db_begin (txn_commit db1))
              else write_loop c write_frequency rest (Some idx) db1)"

definition list2lmdb ::
  "codec \<Rightarrow> (string \<rightharpoonup> bytes) \<Rightarrow> string \<Rightarrow> string option \<Rightarrow> string option \<Rightarrow> row list \<Rightarrow> int
     \<Rightarrow> lmdb \<Rightarrow> (error + unit) \<times> lmdb" where
  "list2lmdb c files attribute source mask_source image_list write_frequency db0 =
     (case ImageListRaw_init attribute source mask_source image_list of
        Inl e \<Rightarrow> (Inl e, db0)
      | Inr dataset \<Rightarrow>
          let image_size = 224;
              max_size = len dataset * image_size * image_size * 3;
              max_size = (if mask_source \<noteq> None then max_size * 2 else max_size);
              db = lmdb_open (max_size * 2) db0;
              db = db_begin db
          in (case write_loop c write_frequency
                     (enumerate 0 (CustomRawLoader_iter files dataset)) None db of
                (Inl e, db) \<Rightarrow> (Inl e, db)
              | (Inr last_idx, db) \<Rightarrow>
                  let db = txn_commit db
                  in (case last_idx of
                        None \<Rightarrow> (Inl (UnboundLocalError ''idx''), db)
                      | Some idx \<Rightarrow>
                          let keys = map format_nat [0..<idx + 1];
                              db = db_begin db;
                              db = txn_put ''__keys__'' (dumps_pyarrow c (PyList (map PyBytes keys))) db;
                              db = txn_put ''__len__'' (dumps_pyarrow c (PyInt (int (length keys)))) db;
                              db = txn_put ''__classnum__'' (dumps_pyarrow c (PyInt (classnum dataset))) db;
                              db = txn_commit db;
                              db = db_sync db;
                              db = db_close db
                          in (Inr (), db))))"

subsection \<open>Notions used to state the properties\<close>

text \<open>
  The reserved metadata keys; the puts among a trace of calls; the entry and the calls that
  one delivered sample contributes; the samples a loader delivered; the range test of the
  manifest filter; decimal digits.
\<close>

definition reserved_keys :: "bytes set" where
  "reserved_keys = {''__keys__'', ''__len__'', ''__classnum__''}"

fun put_of :: "event \<Rightarrow> (bytes \<times> bytes) list" where
  "put_of (EvPut k v) = [(k, v)]"
| "put_of _ = []"

definition puts :: "event list \<Rightarrow> (bytes \<times> bytes) list" where
  "puts evs = concat (map put_of evs)"

definition entry :: "codec \<Rightarrow> nat \<times> item \<Rightarrow> bytes \<times> bytes" where
  "entry c p = (format_nat (fst p), dumps_pyarrow c (record_obj (snd p)))"

definition loop_events :: "codec \<Rightarrow> int \<Rightarrow> nat \<times> item \<Rightarrow> event list" where
  "loop_events c w p =
     EvPut (fst (entry c p)) (snd (entry c p)) #
       (if int (fst p) mod w = 0 then [EvCommit, EvBegin] else [])"

fun delivered :: "(nat \<times> (error + item)) list \<Rightarrow> (nat \<times> item) list" where
  "delivered [] = []"
| "delivered ((i, Inl e) # rest) = delivered rest"
| "delivered ((i, Inr d) # rest) = (i, d) # delivered rest"

definition in_range :: "nat \<Rightarrow> max_label \<Rightarrow> row \<Rightarrow> bool" where
  "in_range k mx r = (0 \<le> cell k r \<and> le_max (cell k r) mx)"

definition is_digit :: "char \<Rightarrow> bool" where
  "is_digit ch = (48 \<le> (of_char ch :: nat) \<and> (of_char ch :: nat) \<le> 57)"

text \<open>
  The map size passed when the database is opened, and the three metadata entries written
  after a loop whose last index was \<open>n - 1\<close>.
\<close>

definition map_size_of :: "string option \<Rightarrow> ImageListRaw \<Rightarrow> nat" where
  "map_size_of mask_source ds =
     (if mask_source \<noteq> None then len ds * 224 * 224 * 3 * 2 else len ds * 224 * 224 * 3) * 2"

definition metadata :: "codec \<Rightarrow> ImageListRaw \<Rightarrow> nat \<Rightarrow> (bytes \<times> bytes) list" where
  "metadata c ds n =
     [(''__keys__'', dumps_pyarrow c (PyList (map PyBytes (map format_nat [0..<n])))),
      (''__len__'', dumps_pyarrow c (PyInt (int n))),
      (''__classnum__'', dumps_pyarrow c (PyInt (classnum ds)))]"

definition put_event :: "bytes \<times> bytes \<Rightarrow> event" where
  "put_event kv = EvPut (fst kv) (snd kv)"

text \<open>The paths of the files that belong to a row: its image and, if derived, its mask.\<close>

definition row_paths :: "string option \<Rightarrow> string option \<Rightarrow> row \<Rightarrow> string list" where
  "row_paths source mask_source r =
     (case source of
        None \<Rightarrow> [fst r]
      | Some s \<Rightarrow>
          path_join s (fst r) #
            (case mask_source of None \<Rightarrow> [] | Some m \<Rightarrow> [mask_name (path_join m (fst r))]))"

subsection \<open>Example inputs\<close>

text \<open>
  A manifest of three rows in the layout path, race, gender, age, identity; a file system
  holding an image and a mask for each of them; a codec that writes a value out in brackets and does not compress; an empty database.
\<close>

definition example_rows :: "row list" where
  "example_rows =
     [(''a.jpg'', [0, 0, 30, 7]), (''b.jpg'', [1, 1, 45, 7]), (''c.jpg'', [4, 2, 101, 8])]"

definition example_files :: "string \<rightharpoonup> bytes" where
  "example_files =
     [''imgs/a.jpg'' \<mapsto> ''A'', ''imgs/b.jpg'' \<mapsto> ''B'', ''imgs/c.jpg'' \<mapsto> ''C'',
      ''masks/a_mask.png'' \<mapsto> ''MA'', ''masks/b_mask.png'' \<mapsto> ''MB'',
      ''masks/c_mask.png'' \<mapsto> ''MC'']"

fun example_serialize :: "pyobj \<Rightarrow> bytes" where
  "example_serialize (PyInt i) = (if i < 0 then ''-'' else []) @ format_nat (nat \<bar>i\<bar>)"
| "example_serialize (PyBytes b) = ''b'' @ b @ '';''"
| "example_serialize (PyTuple xs) = ''('' @ concat (map example_serialize xs) @ '')''"
| "example_serialize (PyList xs) = ''['' @ concat (map example_serialize xs) @ '']''"

definition example_codec :: codec where
  "example_codec = \<lparr>serialize = example_serialize, compress = (\<lambda>b. b)\<rparr>"

definition empty_db :: lmdb where
  "empty_db = \<lparr>store = [], txn = [], events = []\<rparr>"

text \<open>
  Ten rows \<open>f0.jpg\<close> to \<open>f9.jpg\<close> and a file system in which every path can be read
  except the image of the third row; five resolved samples.
\<close>

definition example_rows10 :: "row list" where
  "example_rows10 = map (\<lambda>i. (''f'' @ format_nat i @ ''.jpg'', [0, 0, 30, 7])) [0..<10]"

definition example_files10 :: "string \<rightharpoonup> bytes" where
  "example_files10 = (\<lambda>p. if p = ''imgs/f2.jpg'' then None else Some ''X'')"


subsection \<open>The writer on a database whose calls can fail\<close>

text \<open>
  Every call that \<open>list2lmdb\<close> makes on the database (open, begin, put, commit, sync,
  close) can raise. \<open>raises\<close> says, from the trace of the calls made so far and the call
  about to be made, whether that call raises; a call that raises leaves the database as
  it was. \<open>list2lmdb_f\<close> is \<open>list2lmdb\<close> with every call made through \<open>lmdb_calls\<close>, and
  \<open>data_phase_f\<close> is its part up to and including the commit after the loop.
\<close>

type_synonym faults = "event list \<Rightarrow> event \<Rightarrow> bool"

fun apply_call :: "event \<Rightarrow> lmdb \<Rightarrow> lmdb" where
  "apply_call (EvOpen n) db = lmdb_open n db"
| "apply_call EvBegin db = db_begin db"
| "apply_call (EvPut k v) db = txn_put k v db"
| "apply_call EvCommit db = txn_commit db"
| "apply_call EvSync db = db_sync db"
| "apply_call EvClose db = db_close db"

fun lmdb_calls :: "faults \<Rightarrow> event list \<Rightarrow> lmdb \<Rightarrow> (error + unit) \<times> lmdb" where
  "lmdb_calls raises [] db = (Inr (), db)"
| "lmdb_calls raises (ev # evs) db =
     (if raises (events db) ev then (Inl LmdbError, db)
      else lmdb_calls raises evs (apply_call ev db))"

fun write_loop_f ::
  "faults \<Rightarrow> codec \<Rightarrow> int \<Rightarrow> (nat \<times> (error + item)) list \<Rightarrow> nat option \<Rightarrow> lmdb
     \<Rightarrow> (error + nat option) \<times> lmdb" where
  "write_loop_f raises c write_frequency [] prev db = (Inr prev, db)"
| "write_loop_f raises c write_frequency ((idx, Inl e) # rest) prev db = (Inl e, db)"
| "write_loop_f raises c write_frequency ((idx, Inr data) # rest) prev db =
     (case lmdb_calls raises [EvPut (format_nat idx) (dumps_pyarrow c (record_obj data))] db of
        (Inl e, db1) \<Rightarrow> (Inl e, db1)
      | (Inr u, db1) \<Rightarrow>
          if write_frequency = 0 then (Inl ZeroDivisionError, db1)
          else if int idx mod write_frequency = 0
               then (case lmdb_calls raises [EvCommit, EvBegin] db1 of
                       (Inl e, db2) \<Rightarrow> (Inl e, db2)
                     | (Inr u, db2) \<Rightarrow> write_loop_f raises c write_frequency rest (Some idx) db2)
               else write_loop_f raises c write_frequency rest (Some idx) db1)"

definition list2lmdb_f ::
  "faults \<Rightarrow> codec \<Rightarrow> (string \<rightharpoonup> bytes) \<Rightarrow> string \<Rightarrow> string option \<Rightarrow> string option
     \<Rightarrow> row list \<Rightarrow> int \<Rightarrow> lmdb \<Rightarrow> (error + unit) \<times> lmdb" where
  "list2lmdb_f raises c files attribute source mask_source image_list write_frequency db0 =
     (case ImageListRaw_init attribute source mask_source image_list of
        Inl e \<Rightarrow> (Inl e, db0)
      | Inr dataset \<Rightarrow>
          let image_size = 224;
              max_size = len dataset * image_size * image_size * 3;
              max_size = (if mask_source \<noteq> None then max_size * 2 else max_size)
          in (case lmdb_calls raises [EvOpen (max_size * 2), EvBegin] db0 of
                (Inl e, db) \<Rightarrow> (Inl e, db)
              | (Inr u, db) \<Rightarrow>
          (case write_loop_f raises c write_frequency
                     (enumerate 0 (CustomRawLoader_iter files dataset)) None db of
                (Inl e, db) \<Rightarrow> (Inl e, db)
              | (Inr last_idx, db) \<Rightarrow>
          (case lmdb_calls raises [EvCommit] db of
                (Inl e, db) \<Rightarrow> (Inl e, db)
              | (Inr u, db) \<Rightarrow>
          (case last_idx of
                None \<Rightarrow> (Inl (UnboundLocalError ''idx''), db)
              | Some idx \<Rightarrow>
                  let keys = map format_nat [0..<idx + 1]
                  in lmdb_calls raises
                       [EvBegin,
                        EvPut ''__keys__'' (dumps_pyarrow c (PyList (map PyBytes keys))),
                        EvPut ''__len__'' (dumps_pyarrow c (PyInt (int (length keys)))),
                        EvPut ''__classnum__'' (dumps_pyarrow c (PyInt (classnum dataset))),
                        EvCommit, EvSync, EvClose] db)))))"

definition no_faults :: faults where
  "no_faults = (\<lambda>evs ev. False)"

definition data_phase_f ::
  "faults \<Rightarrow> codec \<Rightarrow> (string \<rightharpoonup> bytes) \<Rightarrow> string option \<Rightarrow> ImageListRaw \<Rightarrow> int \<Rightarrow> lmdb
     \<Rightarrow> (error + nat option) \<times> lmdb" where
  "data_phase_f raises c files mask_source ds w db0 =
     (case lmdb_calls raises [EvOpen (map_size_of mask_source ds), EvBegin] db0 of
        (Inl e, db) \<Rightarrow> (Inl e, db)
      | (Inr u, db) \<Rightarrow>
          (case write_loop_f raises c w (enumerate 0 (CustomRawLoader_iter files ds)) None db of
             (Inl e, db) \<Rightarrow> (Inl e, db)
           | (Inr last_idx, db) \<Rightarrow>
               (case lmdb_calls raises [EvCommit] db of
                  (Inl e, db) \<Rightarrow> (Inl e, db)
                | (Inr u, db) \<Rightarrow> (Inr last_idx, db))))"

definition only_data :: "(bytes \<times> bytes) set \<Rightarrow> lmdb \<Rightarrow> lmdb \<Rightarrow> bool" where
  "only_data E db db1 =
     (\<exists>evs cs. events db1 = events db @ evs \<and> set (puts evs) \<subseteq> E
        \<and> store db1 = store db @ cs \<and> set cs \<union> set (txn db1) \<subseteq> set (txn db) \<union> E)"

text \<open>
  A database whose put under the key 2 raises, files that all exist, and the dataset of
  the ten-row manifest.
\<close>

definition example_faults :: faults where
  "example_faults = (\<lambda>evs ev. case ev of EvPut k v \<Rightarrow> k = ''2'' | _ \<Rightarrow> False)"

definition example_files_all :: "string \<rightharpoonup> bytes" where
  "example_files_all = (\<lambda>p. Some ''X'')"

definition example_ds10 :: ImageListRaw where
  "example_ds10 =
     \<lparr>samples = [''imgs/f0.jpg'', ''imgs/f1.jpg'', ''imgs/f2.jpg'', ''imgs/f3.jpg'',
                 ''imgs/f4.jpg'', ''imgs/f5.jpg'', ''imgs/f6.jpg'', ''imgs/f7.jpg'',
                 ''imgs/f8.jpg'', ''imgs/f9.jpg''],
      masks = MasksList [''masks/f0_mask.png'', ''masks/f1_mask.png'', ''masks/f2_mask.png'',
                 ''masks/f3_mask.png'', ''masks/f4_mask.png'', ''masks/f5_mask.png'',
                 ''masks/f6_mask.png'', ''masks/f7_mask.png'', ''masks/f8_mask.png'',
                 ''masks/f9_mask.png''],
      targets = [0, 0, 0, 0, 0, 0, 0, 0, 0, 0], classnum = 1\<rparr>"

section \<open>Properties\<close>

subsection \<open>Keys\<close>

lemma parse_nat_snoc: "parse_nat (s @ [ch]) = 10 * parse_nat s + (of_char ch - 48)"
  by (simp add: parse_nat_def)

lemma of_char_digit: "d < 10 \<Longrightarrow> (of_char (char_of (48 + d :: nat)) :: nat) = 48 + d"
  by simp

lemma parse_format_nat: "parse_nat (format_nat n) = n"
proof (induction n rule: format_nat.induct)
  case (1 n)
  show ?case
  proof (cases "n < 10")
    case True
    then show ?thesis
      by (subst format_nat.simps) (simp add: parse_nat_def)
  next
    case False
    have "parse_nat (format_nat n) = 10 * parse_nat (format_nat (n div 10)) + (of_char (char_of (48 + n mod 10)) - 48)"
      using False by (subst format_nat.simps) (simp add: parse_nat_snoc)
    also have "\<dots> = 10 * (n div 10) + n mod 10"
      using 1 False by simp
    finally show ?thesis by simp
  qed
qed

lemma format_nat_inj: "format_nat m = format_nat n \<Longrightarrow> m = n"
  by (metis parse_format_nat)

lemma format_nat_digits: "list_all is_digit (format_nat n)"
proof (induction n rule: format_nat.induct)
  case (1 n)
  show ?case
  proof (cases "n < 10")
    case True
    then show ?thesis
      by (subst format_nat.simps) (simp add: is_digit_def)
  next
    case False
    have "n mod 10 < 10" by simp
    then have "is_digit (char_of (48 + n mod 10))"
      unfolding is_digit_def by simp
    then show ?thesis
      using 1 False by (subst format_nat.simps) simp
  qed
qed

lemma format_nat_nonempty: "format_nat n \<noteq> []"
  by (subst format_nat.simps) simp

lemma format_nat_not_reserved: "format_nat n \<notin> reserved_keys"
proof
  assume "format_nat n \<in> reserved_keys"
  moreover have "list_all is_digit (format_nat n)" by (rule format_nat_digits)
  ultimately show False
    by (auto simp: reserved_keys_def is_digit_def)
qed

lemma distinct_format_nat: "distinct (map format_nat [0..<n])"
  by (simp add: distinct_map inj_on_def format_nat_inj)


subsection \<open>The loop\<close>

lemma puts_append: "puts (xs @ ys) = puts xs @ puts ys"
  by (simp add: puts_def)

lemma write_loop_success:
  assumes "w \<noteq> 0"
  shows "fst (write_loop c w (map (\<lambda>p. (fst p, Inr (snd p))) xs) prev db) =
           Inr (if xs = [] then prev else Some (fst (last xs)))
       \<and> events (snd (write_loop c w (map (\<lambda>p. (fst p, Inr (snd p))) xs) prev db)) =
           events db @ concat (map (loop_events c w) xs)
       \<and> store (snd (write_loop c w (map (\<lambda>p. (fst p, Inr (snd p))) xs) prev db)) @
         txn (snd (write_loop c w (map (\<lambda>p. (fst p, Inr (snd p))) xs) prev db)) =
           store db @ txn db @ map (entry c) xs"
proof (induction xs arbitrary: prev db)
  case Nil
  show ?case by simp
next
  case (Cons p xs)
  obtain i d where p: "p = (i, d)" by (cases p)
  define db1 where "db1 = txn_put (format_nat i) (dumps_pyarrow c (record_obj d)) db"
  show ?case
  proof (cases "int i mod w = 0")
    case True
    define db2 where "db2 = db_begin (txn_commit db1)"
    have step: "write_loop c w (map (\<lambda>p. (fst p, Inr (snd p))) (p # xs)) prev db =
                write_loop c w (map (\<lambda>p. (fst p, Inr (snd p))) xs) (Some i) db2"
      using assms True by (simp add: p db1_def db2_def Let_def)
    have ev: "events db2 = events db @ loop_events c w p"
      using True by (simp add: db2_def db1_def p loop_events_def entry_def
          db_begin_def txn_commit_def txn_put_def)
    have st: "store db2 @ txn db2 = store db @ txn db @ [entry c p]"
      by (simp add: db2_def db1_def p entry_def db_begin_def txn_commit_def txn_put_def)
    show ?thesis
      unfolding step using Cons.IH [of "Some i" db2] by (simp add: ev st p)
  next
    case False
    have step: "write_loop c w (map (\<lambda>p. (fst p, Inr (snd p))) (p # xs)) prev db =
                write_loop c w (map (\<lambda>p. (fst p, Inr (snd p))) xs) (Some i) db1"
      using assms False by (simp add: p db1_def Let_def)
    have ev: "events db1 = events db @ loop_events c w p"
      using False by (simp add: db1_def p loop_events_def entry_def txn_put_def)
    have st: "store db1 @ txn db1 = store db @ txn db @ [entry c p]"
      by (simp add: db1_def p entry_def txn_put_def)
    show ?thesis
      unfolding step using Cons.IH [of "Some i" db1] by (simp add: ev st p)
  qed
qed

text \<open>Whatever the outcome, the loop only adds puts of records the loader delivered.\<close>

lemma write_loop_puts:
  "\<exists>evs. events (snd (write_loop c w ys prev db)) = events db @ evs
       \<and> set (puts evs) \<subseteq> entry c ` set (delivered ys)"
proof (induction c w ys prev db rule: write_loop.induct)
  case (1 c w prev db)
  show ?case by (simp add: puts_def)
next
  case (2 c w idx e rest prev db)
  show ?case by (simp add: puts_def)
next
  case (3 c w idx data rest prev db)
  define db1 where "db1 = txn_put (format_nat idx) (dumps_pyarrow c (record_obj data)) db"
  have ev1: "events db1 = events db @ [EvPut (format_nat idx) (dumps_pyarrow c (record_obj data))]"
    by (simp add: db1_def txn_put_def)
  have p1: "puts [EvPut (format_nat idx) (dumps_pyarrow c (record_obj data))] = [entry c (idx, data)]"
    by (simp add: puts_def entry_def)
  show ?case
  proof (cases "w = 0")
    case True
    then have s: "snd (write_loop c w ((idx, Inr data) # rest) prev db) = db1"
      by (simp add: db1_def Let_def)
    have "set (puts [EvPut (format_nat idx) (dumps_pyarrow c (record_obj data))])
             \<subseteq> entry c ` set (delivered ((idx, Inr data) # rest))"
      unfolding p1 by simp
    then show ?thesis
      unfolding s ev1 by blast
  next
    case w: False
    show ?thesis
    proof (cases "int idx mod w = 0")
      case True
      define db2 where "db2 = db_begin (txn_commit db1)"
      have step: "write_loop c w ((idx, Inr data) # rest) prev db = write_loop c w rest (Some idx) db2"
        using w True by (simp add: db1_def db2_def Let_def)
      have ev2: "events db2 = events db @ [EvPut (format_nat idx) (dumps_pyarrow c (record_obj data)), EvCommit, EvBegin]"
        by (simp add: db2_def db_begin_def txn_commit_def ev1)
      from 3(1) [OF refl w True]
      obtain evs where evs: "events (snd (write_loop c w rest (Some idx) db2)) = events db2 @ evs"
        "set (puts evs) \<subseteq> entry c ` set (delivered rest)"
        unfolding db2_def db1_def by blast
      have "events (snd (write_loop c w ((idx, Inr data) # rest) prev db)) =
            events db @ ([EvPut (format_nat idx) (dumps_pyarrow c (record_obj data)), EvCommit, EvBegin] @ evs)"
        unfolding step evs(1) ev2 by simp
      moreover have "set (puts ([EvPut (format_nat idx) (dumps_pyarrow c (record_obj data)), EvCommit, EvBegin] @ evs))
             \<subseteq> entry c ` set (delivered ((idx, Inr data) # rest))"
        using evs(2) by (auto simp: puts_def entry_def)
      ultimately show ?thesis by blast
    next
      case False
      have step: "write_loop c w ((idx, Inr data) # rest) prev db = write_loop c w rest (Some idx) db1"
        using w False by (simp add: db1_def Let_def)
      from 3(2) [OF refl w False]
      obtain evs where evs: "events (snd (write_loop c w rest (Some idx) db1)) = events db1 @ evs"
        "set (puts evs) \<subseteq> entry c ` set (delivered rest)"
        unfolding db1_def by blast
      have "events (snd (write_loop c w ((idx, Inr data) # rest) prev db)) =
            events db @ ([EvPut (format_nat idx) (dumps_pyarrow c (record_obj data))] @ evs)"
        unfolding step evs(1) ev1 by simp
      moreover have "set (puts ([EvPut (format_nat idx) (dumps_pyarrow c (record_obj data))] @ evs))
             \<subseteq> entry c ` set (delivered ((idx, Inr data) # rest))"
        using evs(2) by (auto simp: puts_def entry_def)
      ultimately show ?thesis by blast
    qed
  qed
qed

lemma write_loop_store:
  "\<exists>cs. store (snd (write_loop c w ys prev db)) = store db @ cs
       \<and> set cs \<union> set (txn (snd (write_loop c w ys prev db)))
             \<subseteq> set (txn db) \<union> entry c ` set (delivered ys)"
proof (induction c w ys prev db rule: write_loop.induct)
  case (1 c w prev db)
  show ?case by simp
next
  case (2 c w idx e rest prev db)
  show ?case by simp
next
  case (3 c w idx data rest prev db)
  define db1 where "db1 = txn_put (format_nat idx) (dumps_pyarrow c (record_obj data)) db"
  have db1: "store db1 = store db" "txn db1 = txn db @ [entry c (idx, data)]"
    by (simp_all add: db1_def txn_put_def entry_def)
  show ?case
  proof (cases "w = 0")
    case True
    then have s: "snd (write_loop c w ((idx, Inr data) # rest) prev db) = db1"
      by (simp add: db1_def Let_def)
    show ?thesis
      unfolding s db1 by (rule exI [of _ "[]"]) auto
  next
    case w: False
    show ?thesis
    proof (cases "int idx mod w = 0")
      case True
      define db2 where "db2 = db_begin (txn_commit db1)"
      have step: "write_loop c w ((idx, Inr data) # rest) prev db = write_loop c w rest (Some idx) db2"
        using w True by (simp add: db1_def db2_def Let_def)
      have db2: "store db2 = store db @ txn db @ [entry c (idx, data)]" "txn db2 = []"
        by (simp_all add: db2_def db_begin_def txn_commit_def db1)
      from 3(1) [OF refl w True]
      obtain cs where cs: "store (snd (write_loop c w rest (Some idx) db2)) = store db2 @ cs"
        "set cs \<union> set (txn (snd (write_loop c w rest (Some idx) db2)))
             \<subseteq> set (txn db2) \<union> entry c ` set (delivered rest)"
        unfolding db2_def db1_def by blast
      have "store (snd (write_loop c w ((idx, Inr data) # rest) prev db)) =
              store db @ (txn db @ [entry c (idx, data)] @ cs)"
        unfolding step cs(1) db2 by simp
      moreover have "set (txn db @ [entry c (idx, data)] @ cs)
             \<union> set (txn (snd (write_loop c w ((idx, Inr data) # rest) prev db)))
             \<subseteq> set (txn db) \<union> entry c ` set (delivered ((idx, Inr data) # rest))"
        unfolding step using cs(2) by (auto simp: db2)
      ultimately show ?thesis by blast
    next
      case False
      have step: "write_loop c w ((idx, Inr data) # rest) prev db = write_loop c w rest (Some idx) db1"
        using w False by (simp add: db1_def Let_def)
      from 3(2) [OF refl w False]
      obtain cs where cs: "store (snd (write_loop c w rest (Some idx) db1)) = store db1 @ cs"
        "set cs \<union> set (txn (snd (write_loop c w rest (Some idx) db1)))
             \<subseteq> set (txn db1) \<union> entry c ` set (delivered rest)"
        unfolding db1_def by blast
      have "store (snd (write_loop c w ((idx, Inr data) # rest) prev db)) = store db @ cs"
        unfolding step cs(1) db1 by simp
      moreover have "set cs
             \<union> set (txn (snd (write_loop c w ((idx, Inr data) # rest) prev db)))
             \<subseteq> set (txn db) \<union> entry c ` set (delivered ((idx, Inr data) # rest))"
        unfolding step using cs(2) by (auto simp: db1)
      ultimately show ?thesis by blast
    qed
  qed
qed

text \<open>The loop ends normally only when every sample was delivered.\<close>

lemma write_loop_returns:
  "fst (write_loop c w ys prev db) = Inr r \<Longrightarrow>
     (\<exists>xs. ys = map (\<lambda>p. (fst p, Inr (snd p))) xs) \<and> (ys = [] \<or> w \<noteq> 0)"
proof (induction c w ys prev db rule: write_loop.induct)
  case (1 c w prev db)
  show ?case by simp
next
  case (2 c w idx e rest prev db)
  then show ?case by simp
next
  case (3 c w idx data rest prev db)
  have w: "w \<noteq> 0"
    using 3(3) by (auto simp: Let_def)
  have "\<exists>xs. rest = map (\<lambda>p. (fst p, Inr (snd p))) xs"
  proof (cases "int idx mod w = 0")
    case True
    have "fst (write_loop c w rest (Some idx)
            (db_begin (txn_commit (txn_put (format_nat idx) (dumps_pyarrow c (record_obj data)) db)))) = Inr r"
      using 3(3) w True by (simp add: Let_def)
    from 3(1) [OF refl w True this] show ?thesis by blast
  next
    case False
    have "fst (write_loop c w rest (Some idx)
            (txn_put (format_nat idx) (dumps_pyarrow c (record_obj data)) db)) = Inr r"
      using 3(3) w False by (simp add: Let_def)
    from 3(2) [OF refl w False this] show ?thesis by blast
  qed
  then obtain xs where xs: "rest = map (\<lambda>p. (fst p, Inr (snd p))) xs" by blast
  have "(idx, Inr data) # rest = map (\<lambda>p. (fst p, Inr (snd p))) ((idx, data) # xs)"
    unfolding xs by simp
  then have "\<exists>xs. (idx, Inr data) # rest = map (\<lambda>p. (fst p, Inr (snd p))) xs"
    by (rule exI)
  with w show ?case by simp
qed

lemma delivered_iff: "(i, d) \<in> set (delivered ys) \<longleftrightarrow> (i, Inr d) \<in> set ys"
  by (induction ys rule: delivered.induct) auto

lemma delivered_Inr: "delivered (map (\<lambda>p. (fst p, Inr (snd p))) xs) = xs"
  by (induction xs) auto

lemma np_max_Inr: "np_max xs = Inr m \<longleftrightarrow> xs \<noteq> [] \<and> m = Max (set xs)"
proof (cases xs)
  case Nil
  then show ?thesis by simp
next
  case (Cons x xs')
  have "fold max xs' x = Max (set (x # xs'))"
    by (simp only: Max.set_eq_fold)
  with Cons show ?thesis by auto
qed

lemma np_max_Inl: "np_max xs = Inl e \<longleftrightarrow> xs = [] \<and> e = ValueError"
  by (cases xs) auto

lemma in_range_eq: "in_range k mx = (\<lambda>r. 0 \<le> cell k r \<and> le_max (cell k r) mx)"
  by (rule ext) (simp add: in_range_def)

text \<open>The dataset that construction returns, in terms of the rows that pass the filter.\<close>

lemma ImageListRaw_init_unfold:
  assumes "ATTRIBUTES a = Some k" and "MAX_CLASS a = Some mx"
    and "list_all (\<lambda>r. k \<le> length (snd r)) rows" and "k \<noteq> 0"
    and "list_all (\<lambda>r. in_int64 (cell k r)) rows"
  shows "ImageListRaw_init a src msrc rows =
     (case np_max (map (cell k) (filter (in_range k mx) rows)) of
        Inl e \<Rightarrow> Inl e
      | Inr m \<Rightarrow>
          Inr \<lparr>samples = (case src of
                            Some s \<Rightarrow> map (\<lambda>r. path_join s (fst r)) (filter (in_range k mx) rows)
                          | None \<Rightarrow> map fst (filter (in_range k mx) rows)),
               masks = (case src of
                          Some s \<Rightarrow>
                            (case msrc of
                               Some m \<Rightarrow> MasksList (map (\<lambda>r. mask_name (path_join m (fst r)))
                                                     (filter (in_range k mx) rows))
                             | None \<Rightarrow> MasksNone)
                        | None \<Rightarrow> MasksUnset),
               targets = map (cell k) (filter (in_range k mx) rows),
               classnum = (if a = ''age'' then m else int64_wrap (m + 1))\<rparr>)"
  using assms
  by (simp add: ImageListRaw_init_def column_def in_range_eq Let_def comp_def
      split: sum.split option.split)

lemma ATTRIBUTES_cases:
  "ATTRIBUTES a = Some k \<Longrightarrow>
     (a = ''race'' \<and> k = 1) \<or> (a = ''gender'' \<and> k = 2) \<or> (a = ''age'' \<and> k = 3)
       \<or> (a = ''recognition'' \<and> k = 1)"
  by (auto simp: ATTRIBUTES_def split: if_splits)

lemma ATTRIBUTES_pos: "ATTRIBUTES a = Some k \<Longrightarrow> k \<noteq> 0"
  by (auto dest: ATTRIBUTES_cases)

lemma dom_MAX_CLASS: "ATTRIBUTES a = Some k \<Longrightarrow> \<exists>mx. MAX_CLASS a = Some mx"
  by (auto dest!: ATTRIBUTES_cases simp: MAX_CLASS_def)

lemma ImageListRaw_init_Inr:
  assumes "ImageListRaw_init a src msrc rows = Inr ds"
  shows "\<exists>k mx. ATTRIBUTES a = Some k \<and> MAX_CLASS a = Some mx
           \<and> list_all (\<lambda>r. k \<le> length (snd r)) rows
           \<and> list_all (\<lambda>r. in_int64 (cell k r)) rows
           \<and> targets ds = map (cell k) (filter (in_range k mx) rows)
           \<and> targets ds \<noteq> []
           \<and> samples ds = (case src of Some s \<Rightarrow> map (\<lambda>r. path_join s (fst r)) (filter (in_range k mx) rows)
                                     | None \<Rightarrow> map fst (filter (in_range k mx) rows))
           \<and> masks ds = (case src of
                          Some s \<Rightarrow>
                            (case msrc of
                               Some m \<Rightarrow> MasksList (map (\<lambda>r. mask_name (path_join m (fst r)))
                                                     (filter (in_range k mx) rows))
                             | None \<Rightarrow> MasksNone)
                        | None \<Rightarrow> MasksUnset)
           \<and> classnum ds = (if a = ''age'' then Max (set (targets ds))
                            else int64_wrap (Max (set (targets ds)) + 1))"
proof -
  from assms obtain k where k: "ATTRIBUTES a = Some k"
    by (cases "ATTRIBUTES a") (simp_all add: ImageListRaw_init_def)
  from dom_MAX_CLASS [OF k] obtain mx where mx: "MAX_CLASS a = Some mx" by blast
  have k0: "k \<noteq> 0" by (rule ATTRIBUTES_pos [OF k])
  have cols: "list_all (\<lambda>r. k \<le> length (snd r)) rows"
  proof (rule ccontr)
    assume "\<not> list_all (\<lambda>r. k \<le> length (snd r)) rows"
    then have "ImageListRaw_init a src msrc rows = Inl IndexError"
      using k mx k0 by (simp add: ImageListRaw_init_def column_def)
    with assms show False by simp
  qed
  have i64: "list_all (\<lambda>r. in_int64 (cell k r)) rows"
  proof (rule ccontr)
    assume "\<not> list_all (\<lambda>r. in_int64 (cell k r)) rows"
    then have "ImageListRaw_init a src msrc rows = Inl OverflowError"
      using k mx k0 cols by (simp add: ImageListRaw_init_def column_def)
    with assms show False by simp
  qed
  note u = ImageListRaw_init_unfold [OF k mx cols k0 i64, of src msrc]
  from assms obtain m where m: "np_max (map (cell k) (filter (in_range k mx) rows)) = Inr m"
    unfolding u by (cases "np_max (map (cell k) (filter (in_range k mx) rows))") simp_all
  have ds: "ds = \<lparr>samples = (case src of
                            Some s \<Rightarrow> map (\<lambda>r. path_join s (fst r)) (filter (in_range k mx) rows)
                          | None \<Rightarrow> map fst (filter (in_range k mx) rows)),
               masks = (case src of
                          Some s \<Rightarrow>
                            (case msrc of
                               Some m \<Rightarrow> MasksList (map (\<lambda>r. mask_name (path_join m (fst r)))
                                                     (filter (in_range k mx) rows))
                             | None \<Rightarrow> MasksNone)
                        | None \<Rightarrow> MasksUnset),
               targets = map (cell k) (filter (in_range k mx) rows),
               classnum = (if a = ''age'' then m else int64_wrap (m + 1))\<rparr>"
    using assms unfolding u m by simp
  from m have ne: "map (cell k) (filter (in_range k mx) rows) \<noteq> []"
    and mm: "m = Max (set (map (cell k) (filter (in_range k mx) rows)))"
    by (simp_all add: np_max_Inr)
  have t: "targets ds = map (cell k) (filter (in_range k mx) rows)"
    by (simp add: ds)
  have cn: "classnum ds = (if a = ''age'' then Max (set (targets ds))
                            else int64_wrap (Max (set (targets ds)) + 1))"
    unfolding t by (simp add: ds mm)
  have s: "samples ds = (case src of Some s \<Rightarrow> map (\<lambda>r. path_join s (fst r)) (filter (in_range k mx) rows)
                                     | None \<Rightarrow> map fst (filter (in_range k mx) rows))"
    by (simp add: ds)
  have ms: "masks ds = (case src of
                          Some s \<Rightarrow>
                            (case msrc of
                               Some m \<Rightarrow> MasksList (map (\<lambda>r. mask_name (path_join m (fst r)))
                                                     (filter (in_range k mx) rows))
                             | None \<Rightarrow> MasksNone)
                        | None \<Rightarrow> MasksUnset)"
    by (simp add: ds)
  have ne': "targets ds \<noteq> []"
    using ne unfolding t .
  from k mx cols i64 t ne' s ms cn show ?thesis
    by blast
qed

subsection \<open>The loader\<close>

lemma length_CustomRawLoader_iter: "length (CustomRawLoader_iter files ds) = len ds"
  by (simp add: CustomRawLoader_iter_def)

lemma getitem_Inr:
  assumes "getitem files ds i = Inr d"
  shows "i < len ds \<and> (\<exists>img m ms. d = (img, targets ds ! i, Some m) \<and> masks ds = MasksList ms
            \<and> files (samples ds ! i) = Some img \<and> i < length ms \<and> files (ms ! i) = Some m)"
proof -
  have i: "i < length (samples ds)"
    using assms by (auto simp: getitem_def split: if_splits)
  then obtain img where img: "files (samples ds ! i) = Some img"
    using assms by (cases "files (samples ds ! i)") (auto simp: getitem_def)
  obtain ms where ms: "masks ds = MasksList ms"
    using assms i img by (cases "masks ds") (auto simp: getitem_def)
  have l: "i < length ms"
    using assms i img ms by (auto simp: getitem_def split: if_splits)
  then obtain m where m: "files (ms ! i) = Some m"
    using assms i img ms by (cases "files (ms ! i)") (auto simp: getitem_def)
  have "d = (img, targets ds ! i, Some m)"
    using assms i img ms l m by (simp add: getitem_def)
  with i img ms l m show ?thesis
    by (simp add: len_def)
qed

lemma delivered_enumerate_iter:
  assumes "(i, d) \<in> set (delivered (enumerate 0 (CustomRawLoader_iter files ds)))"
  shows "i < len ds \<and> getitem files ds i = Inr d"
proof -
  from assms have "(i, Inr d) \<in> set (enumerate 0 (CustomRawLoader_iter files ds))"
    by (simp add: delivered_iff)
  then have "i < len ds" and "CustomRawLoader_iter files ds ! i = Inr d"
    by (simp_all add: in_set_enumerate_eq length_CustomRawLoader_iter)
  then show ?thesis
    by (simp add: CustomRawLoader_iter_def)
qed

lemma enumerate_all_Inr:
  assumes "enumerate 0 zs = map (\<lambda>p. (fst p, Inr (snd p))) xs"
  shows "zs = map Inr (map snd xs) \<and> xs = enumerate 0 (map snd xs)"
proof -
  have "map snd (enumerate 0 zs) = map snd (map (\<lambda>p. (fst p, Inr (snd p))) xs)"
    using assms by simp
  then have zs: "zs = map Inr (map snd xs)"
    by (simp add: comp_def)
  have "map fst (enumerate 0 zs) = map fst (map (\<lambda>p. (fst p, Inr (snd p))) xs)"
    using assms by simp
  then have "[0..<length zs] = map fst xs"
    by (simp add: comp_def)
  then have f: "map fst xs = [0..<length (map snd xs)]"
    using zs by simp
  have "xs = zip (map fst xs) (map snd xs)"
    by (simp add: zip_map_fst_snd)
  also have "\<dots> = enumerate 0 (map snd xs)"
    unfolding f by (simp add: enumerate_eq_zip)
  finally show ?thesis using zs by simp
qed

lemma enumerate_map_Inr:
  "enumerate n (map Inr items) = map (\<lambda>p. (fst p, Inr (snd p))) (enumerate n items)"
  by (simp add: enumerate_eq_zip zip_map2 case_prod_beta)

lemma map_fst_entry_enumerate:
  "map fst (map (entry c) (enumerate 0 items)) = map format_nat [0..<length items]"
proof -
  have a: "map fst (map (entry c) xs) = map format_nat (map fst xs)" for xs
    by (induction xs) (simp_all add: entry_def)
  show ?thesis unfolding a by simp
qed

subsection \<open>The phases of a run\<close>

lemma list2lmdb_init_Inl:
  "ImageListRaw_init a src msrc rows = Inl e \<Longrightarrow> list2lmdb c files a src msrc rows w db0 = (Inl e, db0)"
  by (simp add: list2lmdb_def)

lemma list2lmdb_loop_Inl:
  assumes "ImageListRaw_init a src msrc rows = Inr ds"
    and "write_loop c w (enumerate 0 (CustomRawLoader_iter files ds)) None
           (db_begin (lmdb_open (map_size_of msrc ds) db0)) = (Inl e, db1)"
  shows "list2lmdb c files a src msrc rows w db0 = (Inl e, db1)"
  using assms by (simp add: list2lmdb_def map_size_of_def Let_def)

lemma list2lmdb_loop_None:
  assumes "ImageListRaw_init a src msrc rows = Inr ds"
    and "write_loop c w (enumerate 0 (CustomRawLoader_iter files ds)) None
           (db_begin (lmdb_open (map_size_of msrc ds) db0)) = (Inr None, db1)"
  shows "list2lmdb c files a src msrc rows w db0 = (Inl (UnboundLocalError ''idx''), txn_commit db1)"
  using assms by (simp add: list2lmdb_def map_size_of_def Let_def)

lemma list2lmdb_loop_Some:
  assumes "ImageListRaw_init a src msrc rows = Inr ds"
    and "write_loop c w (enumerate 0 (CustomRawLoader_iter files ds)) None
           (db_begin (lmdb_open (map_size_of msrc ds) db0)) = (Inr (Some idx), db1)"
  shows "list2lmdb c files a src msrc rows w db0 =
           (Inr (), db1\<lparr>store := store db1 @ txn db1 @ metadata c ds (idx + 1), txn := [],
                         events := events db1 @ [EvCommit, EvBegin] @
                           map put_event (metadata c ds (idx + 1)) @ [EvCommit, EvSync, EvClose]\<rparr>)"
  using assms
  by (simp add: list2lmdb_def map_size_of_def Let_def metadata_def put_event_def
      txn_commit_def db_begin_def txn_put_def db_sync_def db_close_def)

subsection \<open>Whole runs\<close>

lemma ImageListRaw_init_len:
  assumes "ImageListRaw_init a src msrc rows = Inr ds"
  shows "len ds = length (targets ds) \<and> 0 < len ds"
proof -
  from ImageListRaw_init_Inr [OF assms] obtain k mx where
    t: "targets ds = map (cell k) (filter (in_range k mx) rows)" and ne: "targets ds \<noteq> []"
    and s: "samples ds = (case src of Some s \<Rightarrow> map (\<lambda>r. path_join s (fst r)) (filter (in_range k mx) rows)
                                     | None \<Rightarrow> map fst (filter (in_range k mx) rows))"
    by blast
  have "length (samples ds) = length (targets ds)"
    unfolding s t by (cases src) simp_all
  with ne show ?thesis by (simp add: len_def)
qed

text \<open>A run that returns normally, characterised completely.\<close>

lemma list2lmdb_Inr:
  assumes run: "list2lmdb c files a src msrc rows w db0 = (Inr (), db')"
  shows "\<exists>ds items. ImageListRaw_init a src msrc rows = Inr ds
           \<and> w \<noteq> 0
           \<and> CustomRawLoader_iter files ds = map Inr items
           \<and> length items = len ds \<and> 0 < len ds
           \<and> store db' = store db0 @ map (entry c) (enumerate 0 items) @ metadata c ds (len ds)
           \<and> txn db' = []
           \<and> events db' = events db0 @ [EvOpen (map_size_of msrc ds), EvBegin] @
                 concat (map (loop_events c w) (enumerate 0 items)) @ [EvCommit, EvBegin] @
                 map put_event (metadata c ds (len ds)) @ [EvCommit, EvSync, EvClose]"
proof -
  obtain ds where ds: "ImageListRaw_init a src msrc rows = Inr ds"
    using run list2lmdb_init_Inl [of a src msrc rows _ c files w db0]
    by (cases "ImageListRaw_init a src msrc rows") auto
  define db1 where "db1 = db_begin (lmdb_open (map_size_of msrc ds) db0)"
  define ys where "ys = enumerate 0 (CustomRawLoader_iter files ds)"
  obtain r db2 where loop: "write_loop c w ys None db1 = (r, db2)"
    by (cases "write_loop c w ys None db1")
  have loopu: "write_loop c w (enumerate 0 (CustomRawLoader_iter files ds)) None
           (db_begin (lmdb_open (map_size_of msrc ds) db0)) = (r, db2)"
    using loop by (simp add: ys_def db1_def)
  have "\<exists>idx. r = Inr (Some idx)"
  proof (cases r)
    case (Inl e)
    from list2lmdb_loop_Inl [OF ds loopu [unfolded Inl]] run show ?thesis
      by simp
  next
    case (Inr o1)
    show ?thesis
    proof (cases o1)
      case None
      from list2lmdb_loop_None [OF ds loopu [unfolded Inr None]] run show ?thesis
        by simp
    next
      case (Some idx)
      with Inr show ?thesis by simp
    qed
  qed
  then obtain idx where r: "r = Inr (Some idx)" by blast
  have loop': "write_loop c w ys None db1 = (Inr (Some idx), db2)"
    using loop r by simp
  from write_loop_returns [of c w ys None db1 "Some idx"] loop'
  obtain xs where xs: "ys = map (\<lambda>p. (fst p, Inr (snd p))) xs" and w: "ys = [] \<or> w \<noteq> 0"
    by auto
  define items where "items = map snd xs"
  from enumerate_all_Inr [OF xs [unfolded ys_def]]
  have it: "CustomRawLoader_iter files ds = map Inr items" and xs_eq: "xs = enumerate 0 items"
    by (simp_all add: items_def)
  have len: "length items = len ds"
    using arg_cong [OF it, of length] by (simp add: length_CustomRawLoader_iter)
  have ne: "0 < len ds"
    using ImageListRaw_init_len [OF ds] by blast
  then have "length ys \<noteq> 0"
    by (simp add: ys_def length_CustomRawLoader_iter)
  then have "ys \<noteq> []"
    by (simp only: length_0_conv not_False_eq_True)
  with w have w0: "w \<noteq> 0" by simp
  note s = write_loop_success [OF w0, of c xs None db1, folded xs, unfolded loop']
  have items_ne: "items \<noteq> []"
    using ne len by auto
  have xs_ne: "xs \<noteq> []"
    using items_ne by (simp add: items_def)
  have "fst (last xs) = last (map fst xs)"
    using xs_ne by (simp add: last_map)
  also have "map fst xs = [0..<length items]"
    by (subst xs_eq) simp
  also have "last [0..<length items] = length items - 1"
    using items_ne by (simp add: last_upt)
  finally have "fst (last xs) = length items - 1" .
  then have idx: "idx = len ds - 1"
    using s len xs_ne by simp
  have ev: "events db2 = events db1 @ concat (map (loop_events c w) xs)"
    using s by simp
  have st: "store db2 @ txn db2 = store db1 @ txn db1 @ map (entry c) xs"
    using s by simp
  have db1: "events db1 = events db0 @ [EvOpen (map_size_of msrc ds), EvBegin]"
    "store db1 = store db0" "txn db1 = []"
    by (simp_all add: db1_def db_begin_def lmdb_open_def)
  have n: "Suc idx = len ds"
    using idx ne by simp
  from list2lmdb_loop_Some [OF ds loop' [unfolded ys_def db1_def]] run
  have db': "db' = db2\<lparr>store := store db2 @ txn db2 @ metadata c ds (idx + 1), txn := [],
                         events := events db2 @ [EvCommit, EvBegin] @
                           map put_event (metadata c ds (idx + 1)) @ [EvCommit, EvSync, EvClose]\<rparr>"
    by simp
  have e1: "store db' = store db0 @ map (entry c) (enumerate 0 items) @ metadata c ds (len ds)"
    using st by (simp add: db' db1 n xs_eq flip: append_assoc)
  have e2: "txn db' = []"
    by (simp add: db')
  have e3: "events db' = events db0 @ [EvOpen (map_size_of msrc ds), EvBegin] @
                 concat (map (loop_events c w) (enumerate 0 items)) @ [EvCommit, EvBegin] @
                 map put_event (metadata c ds (len ds)) @ [EvCommit, EvSync, EvClose]"
    by (simp add: db' ev db1 n xs_eq)
  from ds w0 it len ne e1 e2 e3 show ?thesis
    by blast
qed

lemma db_get_metadata:
  assumes "store db = pre @ metadata c ds n"
  shows "db_get db ''__keys__'' = Some (dumps_pyarrow c (PyList (map PyBytes (map format_nat [0..<n]))))"
    and "db_get db ''__len__'' = Some (dumps_pyarrow c (PyInt (int n)))"
    and "db_get db ''__classnum__'' = Some (dumps_pyarrow c (PyInt (classnum ds)))"
  by (simp_all add: db_get_def assms metadata_def)

subsection \<open>Evaluating the example\<close>

lemma example_init_gender:
  "ImageListRaw_init ''gender'' (Some ''imgs'') (Some ''masks'') example_rows =
     Inr \<lparr>samples = [''imgs/a.jpg'', ''imgs/b.jpg''],
          masks = MasksList [''masks/a_mask.png'', ''masks/b_mask.png''],
          targets = [0, 1], classnum = 2\<rparr>"
  by (simp add: ImageListRaw_init_def ATTRIBUTES_def MAX_CLASS_def column_def cell_def
      in_int64_def int64_wrap_def
      path_join_def mask_name_def example_rows_def)

lemma example_iter_gender:
  "CustomRawLoader_iter example_files
     \<lparr>samples = [''imgs/a.jpg'', ''imgs/b.jpg''],
      masks = MasksList [''masks/a_mask.png'', ''masks/b_mask.png''],
      targets = [0, 1], classnum = 2\<rparr> =
     [Inr (''A'', 0, Some ''MA''), Inr (''B'', 1, Some ''MB'')]"
  by (simp add: CustomRawLoader_iter_def len_def getitem_def example_files_def upt_rec)

lemma example_run_gender:
  "fst (list2lmdb example_codec example_files ''gender'' (Some ''imgs'') (Some ''masks'')
          example_rows 5000 empty_db) = Inr ()"
  by (simp add: list2lmdb_def example_init_gender example_iter_gender enumerate_eq_zip upt_rec
      Let_def)

subsection \<open>The keys and the count (C1)\<close>

text \<open>
  C1. For a manifest of which N rows pass the filter, a run that returns normally has
  committed, after what the database held before, exactly the keys "0" to "N-1" in index
  order (decimal numerals, pairwise distinct) followed by the three metadata keys; N is
  at least 1; the value under \<open>__len__\<close> is N and the value under \<open>__keys__\<close> is the list
  of the keys "0" to "N-1" in ascending order.
\<close>

theorem C1_keys_len:
  assumes run: "list2lmdb c files a src msrc rows w db0 = (Inr (), db')"
    and k: "ATTRIBUTES a = Some k" and mx: "MAX_CLASS a = Some mx"
    and N: "N = length (filter (in_range k mx) rows)"
  shows "1 \<le> N
     \<and> map fst (store db') = map fst (store db0) @ map format_nat [0..<N]
            @ [''__keys__'', ''__len__'', ''__classnum__'']
     \<and> distinct (map format_nat [0..<N])
     \<and> (\<forall>i<N. parse_nat (format_nat i) = i \<and> list_all is_digit (format_nat i))
     \<and> db_get db' ''__len__'' = Some (dumps_pyarrow c (PyInt (int N)))
     \<and> db_get db' ''__keys__'' =
           Some (dumps_pyarrow c (PyList (map PyBytes (map format_nat [0..<N]))))"
proof -
  from list2lmdb_Inr [OF run] obtain ds items where
    ds: "ImageListRaw_init a src msrc rows = Inr ds"
    and len: "length items = len ds"
    and st: "store db' = store db0 @ map (entry c) (enumerate 0 items) @ metadata c ds (len ds)"
    by blast
  from ImageListRaw_init_Inr [OF ds] k mx
  have t: "targets ds = map (cell k) (filter (in_range k mx) rows)"
    by auto
  have n: "len ds = N"
    using ImageListRaw_init_len [OF ds] t N by simp
  have pos: "1 \<le> N"
    using ImageListRaw_init_len [OF ds] n by simp
  have keys: "map fst (store db') = map fst (store db0) @ map format_nat [0..<N]
            @ [''__keys__'', ''__len__'', ''__classnum__'']"
    unfolding st map_append map_fst_entry_enumerate len n
    by (simp add: metadata_def)
  have st': "store db' = (store db0 @ map (entry c) (enumerate 0 items)) @ metadata c ds N"
    using st n by simp
  have dec: "\<forall>i<N. parse_nat (format_nat i) = i \<and> list_all is_digit (format_nat i)"
    by (simp add: parse_format_nat format_nat_digits)
  from pos keys distinct_format_nat [of N] dec db_get_metadata(2) [OF st'] db_get_metadata(1) [OF st']
  show ?thesis by blast
qed

theorem C1_keys_len_witness:
  "fst (list2lmdb example_codec example_files ''gender'' (Some ''imgs'') (Some ''masks'')
          example_rows 5000 empty_db) = Inr ()
   \<and> ATTRIBUTES ''gender'' = Some 2 \<and> MAX_CLASS ''gender'' = Some (Finite 1)
   \<and> length (filter (in_range 2 (Finite 1)) example_rows) = 2
   \<and> map fst (store (snd (list2lmdb example_codec example_files ''gender'' (Some ''imgs'')
          (Some ''masks'') example_rows 5000 empty_db))) =
        [''0'', ''1'', ''__keys__'', ''__len__'', ''__classnum__'']
   \<and> db_get (snd (list2lmdb example_codec example_files ''gender'' (Some ''imgs'')
          (Some ''masks'') example_rows 5000 empty_db)) ''__len__'' =
        Some (dumps_pyarrow example_codec (PyInt 2))
   \<and> db_get (snd (list2lmdb example_codec example_files ''gender'' (Some ''imgs'')
          (Some ''masks'') example_rows 5000 empty_db)) ''__keys__'' =
        Some (dumps_pyarrow example_codec (PyList [PyBytes ''0'', PyBytes ''1'']))"
proof -
  define db' where "db' = snd (list2lmdb example_codec example_files ''gender'' (Some ''imgs'')
          (Some ''masks'') example_rows 5000 empty_db)"
  have run: "list2lmdb example_codec example_files ''gender'' (Some ''imgs'') (Some ''masks'')
          example_rows 5000 empty_db = (Inr (), db')"
    using example_run_gender by (simp add: db'_def prod_eq_iff)
  have k: "ATTRIBUTES ''gender'' = Some 2"
    by (simp add: ATTRIBUTES_def)
  have mx: "MAX_CLASS ''gender'' = Some (Finite 1)"
    by (simp add: MAX_CLASS_def)
  have N: "2 = length (filter (in_range 2 (Finite 1)) example_rows)"
    by (simp add: in_range_def cell_def example_rows_def)
  have f: "map format_nat [0..<2] = [''0'', ''1'']"
    by code_simp
  from C1_keys_len [OF run k mx N] example_run_gender k mx N [symmetric]
  show ?thesis
    unfolding db'_def [symmetric] f by (simp add: empty_db_def)
qed

subsection \<open>The puts of a run\<close>

lemma puts_open_begin: "puts ([EvOpen n, EvBegin] @ evs) = puts evs"
  by (simp add: puts_def)

lemma puts_snoc_commit: "puts (evs @ [EvCommit]) = puts evs"
  by (simp add: puts_def)

lemma puts_put_events: "puts (map put_event kvs) = kvs"
  by (induction kvs) (simp_all add: puts_def put_event_def)

lemma puts_loop_events1: "puts (loop_events c w p) = [entry c p]"
  by (cases "int (fst p) mod w = 0") (simp_all add: puts_def loop_events_def)

lemma puts_loop_events: "puts (concat (map (loop_events c w) xs)) = map (entry c) xs"
proof (induction xs)
  case Nil
  show ?case by (simp add: puts_def)
next
  case (Cons p xs)
  have "puts (concat (map (loop_events c w) (p # xs))) =
        puts (loop_events c w p) @ puts (concat (map (loop_events c w) xs))"
    by (simp add: puts_append)
  then show ?case
    unfolding Cons.IH puts_loop_events1 by simp
qed

text \<open>
  Every put of a run, staged or committed, is the record of a sample the loader resolved
  or, in a run that returned normally, one of the three metadata entries.
\<close>

lemma list2lmdb_writes:
  assumes run: "list2lmdb c files a src msrc rows w db0 = (res, db')"
  shows "\<exists>evs cs. events db' = events db0 @ evs \<and> store db' = store db0 @ cs \<and>
     (\<forall>kv \<in> set (puts evs) \<union> set cs.
         (\<exists>ds i d. ImageListRaw_init a src msrc rows = Inr ds \<and> i < len ds
             \<and> getitem files ds i = Inr d \<and> kv = entry c (i, d))
       \<or> (\<exists>ds. res = Inr () \<and> ImageListRaw_init a src msrc rows = Inr ds
             \<and> kv \<in> set (metadata c ds (len ds))))"
proof (cases "ImageListRaw_init a src msrc rows")
  case (Inl e)
  from list2lmdb_init_Inl [OF Inl] run have "db' = db0" by simp
  then have "events db' = events db0 @ []" and "store db' = store db0 @ []" by simp_all
  then show ?thesis
    by (intro exI [of _ "[]"] conjI) (simp_all add: puts_def)
next
  case (Inr ds)
  define db1 where "db1 = db_begin (lmdb_open (map_size_of msrc ds) db0)"
  define ys where "ys = enumerate 0 (CustomRawLoader_iter files ds)"
  define E where "E = entry c ` set (delivered ys)"
  have E: "\<exists>ds i d. ImageListRaw_init a src msrc rows = Inr ds \<and> i < len ds
             \<and> getitem files ds i = Inr d \<and> kv = entry c (i, d)" if "kv \<in> E" for kv
  proof -
    from that obtain i d where "(i, d) \<in> set (delivered ys)" and kv: "kv = entry c (i, d)"
      unfolding E_def by auto
    from delivered_enumerate_iter [OF this(1) [unfolded ys_def]] Inr kv show ?thesis
      by blast
  qed
  have db1: "events db1 = events db0 @ [EvOpen (map_size_of msrc ds), EvBegin]"
    "store db1 = store db0" "txn db1 = []"
    by (simp_all add: db1_def db_begin_def lmdb_open_def)
  obtain r db2 where loop: "write_loop c w ys None db1 = (r, db2)"
    by (cases "write_loop c w ys None db1")
  have loopu: "write_loop c w (enumerate 0 (CustomRawLoader_iter files ds)) None
           (db_begin (lmdb_open (map_size_of msrc ds) db0)) = (r, db2)"
    using loop by (simp add: ys_def db1_def)
  from write_loop_puts [of c w ys None db1] loop
  obtain evs where evs: "events db2 = events db1 @ evs" "set (puts evs) \<subseteq> E"
    unfolding E_def by auto
  from write_loop_store [of c w ys None db1] loop
  obtain cs where cs: "store db2 = store db1 @ cs" "set cs \<union> set (txn db2) \<subseteq> E"
    unfolding E_def by (auto simp: db1(3))
  show ?thesis
  proof (cases r)
    case (Inl e)
    from list2lmdb_loop_Inl [OF Inr loopu [unfolded Inl]] run have d: "db' = db2" by simp
    have 1: "events db' = events db0 @ ([EvOpen (map_size_of msrc ds), EvBegin] @ evs)"
      by (simp add: d evs(1) db1)
    have 2: "store db' = store db0 @ cs"
      by (simp add: d cs(1) db1)
    have 3: "set (puts ([EvOpen (map_size_of msrc ds), EvBegin] @ evs)) \<union> set cs \<subseteq> E"
      unfolding puts_open_begin using evs(2) cs(2) by auto
    from 1 2 3 E show ?thesis by blast
  next
    case r: (Inr o1)
    show ?thesis
    proof (cases o1)
      case None
      from list2lmdb_loop_None [OF Inr loopu [unfolded r None]] run
      have d: "db' = txn_commit db2" by simp
      have 1: "events db' = events db0 @ (([EvOpen (map_size_of msrc ds), EvBegin] @ evs) @ [EvCommit])"
        by (simp add: d evs(1) db1 txn_commit_def)
      have 2: "store db' = store db0 @ (cs @ txn db2)"
        by (simp add: d cs(1) db1 txn_commit_def)
      have 3: "set (puts (([EvOpen (map_size_of msrc ds), EvBegin] @ evs) @ [EvCommit]))
                 \<union> set (cs @ txn db2) \<subseteq> E"
        unfolding puts_snoc_commit puts_open_begin using evs(2) cs(2) by auto
      from 1 2 3 E show ?thesis by blast
    next
      case (Some idx)
      from list2lmdb_loop_Some [OF Inr loopu [unfolded r Some]] run
      have res: "res = Inr ()" by simp
      from list2lmdb_Inr [OF run [unfolded res]] Inr obtain items where
        it: "CustomRawLoader_iter files ds = map Inr items"
        and st: "store db' = store db0 @ map (entry c) (enumerate 0 items) @ metadata c ds (len ds)"
        and ev: "events db' = events db0 @ [EvOpen (map_size_of msrc ds), EvBegin] @
                 concat (map (loop_events c w) (enumerate 0 items)) @ [EvCommit, EvBegin] @
                 map put_event (metadata c ds (len ds)) @ [EvCommit, EvSync, EvClose]"
        by auto
      have del: "delivered ys = enumerate 0 items"
        unfolding ys_def it enumerate_map_Inr by (rule delivered_Inr)
      have p: "puts ([EvOpen (map_size_of msrc ds), EvBegin] @
                 concat (map (loop_events c w) (enumerate 0 items)) @ [EvCommit, EvBegin] @
                 map put_event (metadata c ds (len ds)) @ [EvCommit, EvSync, EvClose]) =
               map (entry c) (enumerate 0 items) @ metadata c ds (len ds)"
        unfolding puts_open_begin puts_append puts_loop_events puts_put_events
        by (simp add: puts_def)
      have 3: "set (map (entry c) (enumerate 0 items) @ metadata c ds (len ds))
                 \<subseteq> E \<union> set (metadata c ds (len ds))"
        by (auto simp: E_def del)
      have "\<forall>kv \<in> set (puts ([EvOpen (map_size_of msrc ds), EvBegin] @
                 concat (map (loop_events c w) (enumerate 0 items)) @ [EvCommit, EvBegin] @
                 map put_event (metadata c ds (len ds)) @ [EvCommit, EvSync, EvClose]))
             \<union> set (map (entry c) (enumerate 0 items) @ metadata c ds (len ds)).
         (\<exists>ds i d. ImageListRaw_init a src msrc rows = Inr ds \<and> i < len ds
             \<and> getitem files ds i = Inr d \<and> kv = entry c (i, d))
       \<or> (\<exists>ds. res = Inr () \<and> ImageListRaw_init a src msrc rows = Inr ds
             \<and> kv \<in> set (metadata c ds (len ds)))"
        unfolding p using 3 E res Inr by blast
      with ev st show ?thesis by blast
    qed
  qed
qed

subsection \<open>Labels in range (C2)\<close>

lemma metadata_reserved: "kv \<in> set (metadata c ds n) \<Longrightarrow> fst kv \<in> reserved_keys"
  by (auto simp: metadata_def reserved_keys_def)

lemma example_attrs:
  "ATTRIBUTES ''race'' = Some 1" "ATTRIBUTES ''gender'' = Some 2" "ATTRIBUTES ''age'' = Some 3"
  "ATTRIBUTES ''recognition'' = Some 1"
  "MAX_CLASS ''race'' = Some (Finite 4)" "MAX_CLASS ''gender'' = Some (Finite 1)"
  "MAX_CLASS ''age'' = Some (Finite 100)" "MAX_CLASS ''recognition'' = Some Infinite"
  by (simp_all add: ATTRIBUTES_def MAX_CLASS_def)

subsection \<open>Which files a run depends on\<close>

lemma getitem_frame:
  assumes "files' (samples ds ! i) = files (samples ds ! i)"
    and "\<And>ms. masks ds = MasksList ms \<Longrightarrow> i < length ms \<Longrightarrow> files' (ms ! i) = files (ms ! i)"
  shows "getitem files' ds i = getitem files ds i"
  using assms by (cases "masks ds") (auto simp: getitem_def split: option.splits)

lemma CustomRawLoader_iter_frame:
  assumes ds: "ImageListRaw_init a src msrc rows = Inr ds"
    and k: "ATTRIBUTES a = Some k" and mx: "MAX_CLASS a = Some mx"
    and same: "\<forall>r \<in> set (filter (in_range k mx) rows).
                 \<forall>p \<in> set (row_paths src msrc r). files' p = files p"
  shows "CustomRawLoader_iter files' ds = CustomRawLoader_iter files ds"
proof -
  define kept where "kept = filter (in_range k mx) rows"
  from ImageListRaw_init_Inr [OF ds] k mx
  have s: "samples ds = (case src of Some s \<Rightarrow> map (\<lambda>r. path_join s (fst r)) kept
                                     | None \<Rightarrow> map fst kept)"
    and m: "masks ds = (case src of
                          Some s \<Rightarrow>
                            (case msrc of
                               Some m \<Rightarrow> MasksList (map (\<lambda>r. mask_name (path_join m (fst r))) kept)
                             | None \<Rightarrow> MasksNone)
                        | None \<Rightarrow> MasksUnset)"
    unfolding kept_def by auto
  have len: "len ds = length kept"
    unfolding len_def s by (cases src) simp_all
  have same': "\<forall>p \<in> set (row_paths src msrc (kept ! i)). files' p = files p" if "i < length kept" for i
  proof -
    from that have "kept ! i \<in> set kept" by simp
    with same show ?thesis unfolding kept_def by blast
  qed
  have "getitem files' ds i = getitem files ds i" if i: "i < len ds" for i
  proof (rule getitem_frame)
    have "samples ds ! i \<in> set (row_paths src msrc (kept ! i))"
      using i len unfolding s by (cases src) (simp_all add: row_paths_def)
    with same' [of i] i len show "files' (samples ds ! i) = files (samples ds ! i)"
      by simp
  next
    fix ms
    assume ms: "masks ds = MasksList ms" and l: "i < length ms"
    from ms m obtain s' m' where src: "src = Some s'" and msrc: "msrc = Some m'"
      and ms': "ms = map (\<lambda>r. mask_name (path_join m' (fst r))) kept"
      by (cases src; cases msrc) simp_all
    have "ms ! i \<in> set (row_paths src msrc (kept ! i))"
      using l unfolding ms' src msrc by (simp add: row_paths_def)
    with same' [of i] l show "files' (ms ! i) = files (ms ! i)"
      unfolding ms' by simp
  qed
  then show ?thesis
    by (simp add: CustomRawLoader_iter_def)
qed

text \<open>
  A run depends on the file system only through the files of the rows that pass the
  filter: whether any other file exists, and what it holds, makes no difference.
\<close>

lemma list2lmdb_frame:
  assumes k: "ATTRIBUTES a = Some k" and mx: "MAX_CLASS a = Some mx"
    and same: "\<forall>r \<in> set (filter (in_range k mx) rows).
                 \<forall>p \<in> set (row_paths src msrc r). files' p = files p"
  shows "list2lmdb c files' a src msrc rows w db0 = list2lmdb c files a src msrc rows w db0"
proof (cases "ImageListRaw_init a src msrc rows")
  case (Inl e)
  then show ?thesis by (simp add: list2lmdb_init_Inl)
next
  case (Inr ds)
  from CustomRawLoader_iter_frame [OF Inr k mx same] Inr show ?thesis
    by (simp add: list2lmdb_def)
qed

text \<open>The database is opened with a size computed from the number of rows that were kept.\<close>

lemma list2lmdb_opens:
  assumes run: "list2lmdb c files a src msrc rows w db0 = (res, db')"
    and ds: "ImageListRaw_init a src msrc rows = Inr ds"
  shows "\<exists>evs. events db' = events db0 @ EvOpen (map_size_of msrc ds) # EvBegin # evs"
proof -
  define db1 where "db1 = db_begin (lmdb_open (map_size_of msrc ds) db0)"
  define ys where "ys = enumerate 0 (CustomRawLoader_iter files ds)"
  have db1: "events db1 = events db0 @ [EvOpen (map_size_of msrc ds), EvBegin]"
    by (simp add: db1_def db_begin_def lmdb_open_def)
  obtain r db2 where loop: "write_loop c w ys None db1 = (r, db2)"
    by (cases "write_loop c w ys None db1")
  have loopu: "write_loop c w (enumerate 0 (CustomRawLoader_iter files ds)) None
           (db_begin (lmdb_open (map_size_of msrc ds) db0)) = (r, db2)"
    using loop by (simp add: ys_def db1_def)
  from write_loop_puts [of c w ys None db1] loop
  obtain evs where evs: "events db2 = events db1 @ evs"
    by auto
  have e2: "events db2 = events db0 @ EvOpen (map_size_of msrc ds) # EvBegin # evs"
    unfolding evs db1 by simp
  show ?thesis
  proof (cases r)
    case (Inl e)
    from list2lmdb_loop_Inl [OF ds loopu [unfolded Inl]] run have "db' = db2" by simp
    with e2 show ?thesis by blast
  next
    case r: (Inr o1)
    show ?thesis
    proof (cases o1)
      case None
      from list2lmdb_loop_None [OF ds loopu [unfolded r None]] run
      have "db' = txn_commit db2" by simp
      then have "events db' = events db0 @ EvOpen (map_size_of msrc ds) # EvBegin # (evs @ [EvCommit])"
        by (simp add: e2 txn_commit_def)
      then show ?thesis by blast
    next
      case (Some idx)
      from list2lmdb_loop_Some [OF ds loopu [unfolded r Some]] run
      have "events db' = events db0 @ EvOpen (map_size_of msrc ds) # EvBegin #
                 (evs @ [EvCommit, EvBegin] @
                           map put_event (metadata c ds (idx + 1)) @ [EvCommit, EvSync, EvClose])"
        by (auto simp: e2)
      then show ?thesis by blast
    qed
  qed
qed

text \<open>
  C2. In every run, whatever its outcome, each put under a key other than the three
  metadata keys carries the record of a row that passed the filter, and its label is
  non-negative and at most the maximum of the attribute. The dataset is built from the
  rows that pass the range test alone. The rows that fail it are removed before any file
  is read: the run is the same, in its outcome and in the database it leaves, on every
  file system that agrees with the given one on the image and mask paths of the rows that
  pass, so no file of a removed row is looked at. They are removed before any store
  write: when construction raises, the database is left as it was, and otherwise the
  first call on the database is the opening with the size computed from the number of
  rows kept.
\<close>

theorem C2_labels_in_range:
  assumes run: "list2lmdb c files a src msrc rows w db0 = (res, db')"
    and k: "ATTRIBUTES a = Some k" and mx: "MAX_CLASS a = Some mx"
  shows "(\<exists>evs. events db' = events db0 @ evs \<and>
           (\<forall>kv \<in> set (puts evs). fst kv \<notin> reserved_keys \<longrightarrow>
              (\<exists>i img label m.
                 kv = (format_nat i,
                       dumps_pyarrow c (PyTuple [PyBytes img, PyInt label, PyBytes m]))
                 \<and> i < length (filter (in_range k mx) rows)
                 \<and> label = cell k (filter (in_range k mx) rows ! i)
                 \<and> 0 \<le> label \<and> le_max label mx)))
       \<and> (\<forall>ds. ImageListRaw_init a src msrc rows = Inr ds \<longrightarrow>
             targets ds = map (cell k) (filter (in_range k mx) rows)
             \<and> len ds = length (targets ds)
             \<and> (\<forall>l \<in> set (targets ds). 0 \<le> l \<and> le_max l mx))
       \<and> (\<forall>ds. ImageListRaw_init a src msrc rows = Inr ds \<longrightarrow>
             (\<exists>evs. events db' = events db0 @ EvOpen (map_size_of msrc ds) # EvBegin # evs))
       \<and> (\<forall>e. ImageListRaw_init a src msrc rows = Inl e \<longrightarrow> res = Inl e \<and> db' = db0)
       \<and> (\<forall>files'.
             (\<forall>r \<in> set (filter (in_range k mx) rows).
                \<forall>p \<in> set (row_paths src msrc r). files' p = files p) \<longrightarrow>
             list2lmdb c files' a src msrc rows w db0 = (res, db'))"
proof -
  have ds_props: "targets ds = map (cell k) (filter (in_range k mx) rows)
             \<and> len ds = length (targets ds)
             \<and> (\<forall>l \<in> set (targets ds). 0 \<le> l \<and> le_max l mx)"
    if ds: "ImageListRaw_init a src msrc rows = Inr ds" for ds
  proof -
    from ImageListRaw_init_Inr [OF ds] k mx
    have t: "targets ds = map (cell k) (filter (in_range k mx) rows)" by auto
    have "\<forall>l \<in> set (targets ds). 0 \<le> l \<and> le_max l mx"
      unfolding t by (auto simp: in_range_def)
    with t ImageListRaw_init_len [OF ds] show ?thesis by blast
  qed
  from list2lmdb_writes [OF run] obtain evs cs where
    ev: "events db' = events db0 @ evs"
    and w: "\<forall>kv \<in> set (puts evs) \<union> set cs.
         (\<exists>ds i d. ImageListRaw_init a src msrc rows = Inr ds \<and> i < len ds
             \<and> getitem files ds i = Inr d \<and> kv = entry c (i, d))
       \<or> (\<exists>ds. res = Inr () \<and> ImageListRaw_init a src msrc rows = Inr ds
             \<and> kv \<in> set (metadata c ds (len ds)))"
    by blast
  have "\<exists>i img label m.
                 kv = (format_nat i,
                       dumps_pyarrow c (PyTuple [PyBytes img, PyInt label, PyBytes m]))
                 \<and> i < length (filter (in_range k mx) rows)
                 \<and> label = cell k (filter (in_range k mx) rows ! i)
                 \<and> 0 \<le> label \<and> le_max label mx"
    if kv: "kv \<in> set (puts evs)" and nr: "fst kv \<notin> reserved_keys" for kv
  proof -
    from w kv nr metadata_reserved obtain ds i d where
      ds: "ImageListRaw_init a src msrc rows = Inr ds" and i: "i < len ds"
      and g: "getitem files ds i = Inr d" and e: "kv = entry c (i, d)"
      by blast
    from getitem_Inr [OF g] obtain img m where d: "d = (img, targets ds ! i, Some m)"
      by blast
    from ds_props [OF ds] have t: "targets ds = map (cell k) (filter (in_range k mx) rows)"
      and l: "len ds = length (targets ds)"
      and r: "\<forall>l \<in> set (targets ds). 0 \<le> l \<and> le_max l mx"
      by blast+
    have i': "i < length (filter (in_range k mx) rows)"
      using i l t by simp
    have lab: "targets ds ! i = cell k (filter (in_range k mx) rows ! i)"
      unfolding t using i' by simp
    have "targets ds ! i \<in> set (targets ds)"
      using i l by simp
    with r have rng: "0 \<le> targets ds ! i \<and> le_max (targets ds ! i) mx"
      by blast
    have "kv = (format_nat i,
                dumps_pyarrow c (PyTuple [PyBytes img, PyInt (targets ds ! i), PyBytes m]))"
      by (simp add: e d entry_def record_obj_def)
    with i' lab rng show ?thesis by blast
  qed
  with ev have A: "\<exists>evs. events db' = events db0 @ evs \<and>
           (\<forall>kv \<in> set (puts evs). fst kv \<notin> reserved_keys \<longrightarrow>
              (\<exists>i img label m.
                 kv = (format_nat i,
                       dumps_pyarrow c (PyTuple [PyBytes img, PyInt label, PyBytes m]))
                 \<and> i < length (filter (in_range k mx) rows)
                 \<and> label = cell k (filter (in_range k mx) rows ! i)
                 \<and> 0 \<le> label \<and> le_max label mx))"
    by blast
  have B: "\<forall>ds. ImageListRaw_init a src msrc rows = Inr ds \<longrightarrow>
             targets ds = map (cell k) (filter (in_range k mx) rows)
             \<and> len ds = length (targets ds)
             \<and> (\<forall>l \<in> set (targets ds). 0 \<le> l \<and> le_max l mx)"
    using ds_props by blast
  have C: "\<forall>ds. ImageListRaw_init a src msrc rows = Inr ds \<longrightarrow>
             (\<exists>evs. events db' = events db0 @ EvOpen (map_size_of msrc ds) # EvBegin # evs)"
    using list2lmdb_opens [OF run] by blast
  have D: "\<forall>e. ImageListRaw_init a src msrc rows = Inl e \<longrightarrow> res = Inl e \<and> db' = db0"
  proof (intro allI impI)
    fix e
    assume "ImageListRaw_init a src msrc rows = Inl e"
    from list2lmdb_init_Inl [OF this, of c files w db0] run show "res = Inl e \<and> db' = db0"
      by simp
  qed
  have E: "\<forall>files'.
             (\<forall>r \<in> set (filter (in_range k mx) rows).
                \<forall>p \<in> set (row_paths src msrc r). files' p = files p) \<longrightarrow>
             list2lmdb c files' a src msrc rows w db0 = (res, db')"
  proof (intro allI impI)
    fix files'
    assume "\<forall>r \<in> set (filter (in_range k mx) rows).
                \<forall>p \<in> set (row_paths src msrc r). files' p = files p"
    from list2lmdb_frame [OF k mx this, of c w db0] run
    show "list2lmdb c files' a src msrc rows w db0 = (res, db')"
      by simp
  qed
  from A B C D E show ?thesis
    by (intro conjI)
qed

lemma format_small: "format_nat 0 = ''0''" "format_nat 1 = ''1''" "format_nat 2 = ''2''"
  "format_nat 3 = ''3''" "format_nat 4 = ''4''"
  "format_nat (Suc 0) = ''1''" "format_nat (Suc (Suc 0)) = ''2''"
  by code_simp+

lemmas run_simps =
  enumerate_eq_zip upt_rec Let_def example_codec_def dumps_pyarrow_def record_obj_def len_def
  lmdb_open_def db_begin_def txn_put_def txn_commit_def db_sync_def db_close_def empty_db_def
  format_small

lemma example_db_gender:
  "snd (list2lmdb example_codec example_files ''gender'' (Some ''imgs'') (Some ''masks'')
          example_rows 5000 empty_db) =
     \<lparr>store = [(''0'', ''(bA;0bMA;)''), (''1'', ''(bB;1bMB;)''), (''__keys__'', ''[b0;b1;]''),
               (''__len__'', ''2''), (''__classnum__'', ''2'')],
      txn = [],
      events = [EvOpen 1204224, EvBegin, EvPut ''0'' ''(bA;0bMA;)'', EvCommit, EvBegin,
                EvPut ''1'' ''(bB;1bMB;)'', EvCommit, EvBegin, EvPut ''__keys__'' ''[b0;b1;]'',
                EvPut ''__len__'' ''2'', EvPut ''__classnum__'' ''2'', EvCommit, EvSync, EvClose]\<rparr>"
  by (simp add: list2lmdb_def example_init_gender example_iter_gender run_simps)

theorem C2_labels_in_range_witness:
  "ATTRIBUTES ''gender'' = Some 2 \<and> MAX_CLASS ''gender'' = Some (Finite 1)
   \<and> puts (events (snd (list2lmdb example_codec example_files ''gender'' (Some ''imgs'')
          (Some ''masks'') example_rows 5000 empty_db))) =
        [(''0'', ''(bA;0bMA;)''), (''1'', ''(bB;1bMB;)''), (''__keys__'', ''[b0;b1;]''),
         (''__len__'', ''2''), (''__classnum__'', ''2'')]
   \<and> ''0'' \<notin> reserved_keys \<and> ''1'' \<notin> reserved_keys
   \<and> (\<exists>i img label m.
          (''0'', ''(bA;0bMA;)'') =
            (format_nat i,
             dumps_pyarrow example_codec (PyTuple [PyBytes img, PyInt label, PyBytes m]))
          \<and> i < length (filter (in_range 2 (Finite 1)) example_rows)
          \<and> label = cell 2 (filter (in_range 2 (Finite 1)) example_rows ! i)
          \<and> 0 \<le> label \<and> le_max label (Finite 1))
   \<and> (\<exists>i img label m.
          (''1'', ''(bB;1bMB;)'') =
            (format_nat i,
             dumps_pyarrow example_codec (PyTuple [PyBytes img, PyInt label, PyBytes m]))
          \<and> i < length (filter (in_range 2 (Finite 1)) example_rows)
          \<and> label = cell 2 (filter (in_range 2 (Finite 1)) example_rows ! i)
          \<and> 0 \<le> label \<and> le_max label (Finite 1))
   \<and> (\<exists>ds. ImageListRaw_init ''gender'' (Some ''imgs'') (Some ''masks'') example_rows = Inr ds
          \<and> targets ds = [0, 1] \<and> len ds = 2)
   \<and> filter (in_range 2 (Finite 1)) example_rows = [(''a.jpg'', [0, 0, 30, 7]), (''b.jpg'', [1, 1, 45, 7])]
   \<and> list2lmdb example_codec (example_files(''imgs/c.jpg'' := None, ''masks/c_mask.png'' := None))
          ''gender'' (Some ''imgs'') (Some ''masks'') example_rows 5000 empty_db =
        list2lmdb example_codec example_files
          ''gender'' (Some ''imgs'') (Some ''masks'') example_rows 5000 empty_db"
proof -
  note c2' = C2_labels_in_range [OF surjective_pairing example_attrs(2) example_attrs(6),
      of example_codec example_files "Some ''imgs''" "Some ''masks''" example_rows 5000 empty_db]
  note c2 = conjI [OF c2' [THEN conjunct1] c2' [THEN conjunct2, THEN conjunct1]]
  note c2E = c2' [THEN conjunct2, THEN conjunct2, THEN conjunct2, THEN conjunct2]
  have kept: "filter (in_range 2 (Finite 1)) example_rows =
      [(''a.jpg'', [0, 0, 30, 7]), (''b.jpg'', [1, 1, 45, 7])]"
    by (simp add: in_range_def cell_def example_rows_def)
  have same: "\<forall>r \<in> set (filter (in_range 2 (Finite 1)) example_rows).
      \<forall>p \<in> set (row_paths (Some ''imgs'') (Some ''masks'') r).
        (example_files(''imgs/c.jpg'' := None, ''masks/c_mask.png'' := None)) p = example_files p"
    unfolding kept by (simp add: row_paths_def path_join_def mask_name_def)
  from c2E have "(\<forall>r \<in> set (filter (in_range 2 (Finite 1)) example_rows).
      \<forall>p \<in> set (row_paths (Some ''imgs'') (Some ''masks'') r).
        (example_files(''imgs/c.jpg'' := None, ''masks/c_mask.png'' := None)) p = example_files p)
    \<longrightarrow> list2lmdb example_codec
          (example_files(''imgs/c.jpg'' := None, ''masks/c_mask.png'' := None))
          ''gender'' (Some ''imgs'') (Some ''masks'') example_rows 5000 empty_db =
        (fst (list2lmdb example_codec example_files
          ''gender'' (Some ''imgs'') (Some ''masks'') example_rows 5000 empty_db),
         snd (list2lmdb example_codec example_files
          ''gender'' (Some ''imgs'') (Some ''masks'') example_rows 5000 empty_db))"
    by (rule spec)
  from this same
  have "list2lmdb example_codec
          (example_files(''imgs/c.jpg'' := None, ''masks/c_mask.png'' := None))
          ''gender'' (Some ''imgs'') (Some ''masks'') example_rows 5000 empty_db =
        (fst (list2lmdb example_codec example_files
          ''gender'' (Some ''imgs'') (Some ''masks'') example_rows 5000 empty_db),
         snd (list2lmdb example_codec example_files
          ''gender'' (Some ''imgs'') (Some ''masks'') example_rows 5000 empty_db))"
    by (rule mp)
  then have fr: "list2lmdb example_codec
          (example_files(''imgs/c.jpg'' := None, ''masks/c_mask.png'' := None))
          ''gender'' (Some ''imgs'') (Some ''masks'') example_rows 5000 empty_db =
        list2lmdb example_codec example_files
          ''gender'' (Some ''imgs'') (Some ''masks'') example_rows 5000 empty_db"
    by (simp only: prod.collapse)
  have p: "puts (events (snd (list2lmdb example_codec example_files ''gender'' (Some ''imgs'')
          (Some ''masks'') example_rows 5000 empty_db))) =
        [(''0'', ''(bA;0bMA;)''), (''1'', ''(bB;1bMB;)''), (''__keys__'', ''[b0;b1;]''),
         (''__len__'', ''2''), (''__classnum__'', ''2'')]"
    by (simp add: example_db_gender puts_def)
  have f: "map (cell 2) (filter (in_range 2 (Finite 1)) example_rows) = [0, 1]"
    by (simp add: in_range_def cell_def example_rows_def)
  have n0: "''0'' \<notin> reserved_keys" and n1: "''1'' \<notin> reserved_keys"
    by (simp_all add: reserved_keys_def)
  from c2 obtain evs where
    ev: "events (snd (list2lmdb example_codec example_files ''gender'' (Some ''imgs'')
          (Some ''masks'') example_rows 5000 empty_db)) = events empty_db @ evs"
    and r: "\<forall>kv \<in> set (puts evs). fst kv \<notin> reserved_keys \<longrightarrow>
            (\<exists>i img label m.
               kv = (format_nat i,
                     dumps_pyarrow example_codec (PyTuple [PyBytes img, PyInt label, PyBytes m]))
               \<and> i < length (filter (in_range 2 (Finite 1)) example_rows)
               \<and> label = cell 2 (filter (in_range 2 (Finite 1)) example_rows ! i)
               \<and> 0 \<le> label \<and> le_max label (Finite 1))"
    by blast
  have pe: "puts evs = [(''0'', ''(bA;0bMA;)''), (''1'', ''(bB;1bMB;)''), (''__keys__'', ''[b0;b1;]''),
         (''__len__'', ''2''), (''__classnum__'', ''2'')]"
    using ev p by (simp add: empty_db_def)
  have r0: "\<exists>i img label m.
          (''0'', ''(bA;0bMA;)'') =
            (format_nat i,
             dumps_pyarrow example_codec (PyTuple [PyBytes img, PyInt label, PyBytes m]))
          \<and> i < length (filter (in_range 2 (Finite 1)) example_rows)
          \<and> label = cell 2 (filter (in_range 2 (Finite 1)) example_rows ! i)
          \<and> 0 \<le> label \<and> le_max label (Finite 1)"
    using r [unfolded pe, THEN bspec, of "(''0'', ''(bA;0bMA;)'')"] n0 by simp
  have r1: "\<exists>i img label m.
          (''1'', ''(bB;1bMB;)'') =
            (format_nat i,
             dumps_pyarrow example_codec (PyTuple [PyBytes img, PyInt label, PyBytes m]))
          \<and> i < length (filter (in_range 2 (Finite 1)) example_rows)
          \<and> label = cell 2 (filter (in_range 2 (Finite 1)) example_rows ! i)
          \<and> 0 \<le> label \<and> le_max label (Finite 1)"
    using r [unfolded pe, THEN bspec, of "(''1'', ''(bB;1bMB;)'')"] n1 by simp
  have d: "\<exists>ds. ImageListRaw_init ''gender'' (Some ''imgs'') (Some ''masks'') example_rows = Inr ds
          \<and> targets ds = [0, 1] \<and> len ds = 2"
    using c2 example_init_gender unfolding f by auto
  from example_attrs(2) example_attrs(6) p n0 n1 r0 r1 d kept fr show ?thesis
    by (intro conjI)
qed

subsection \<open>Columns and bounds (C3)\<close>

lemma filter_map_cell:
  "map (cell k) (filter (in_range k mx) rows) = filter (\<lambda>l. 0 \<le> l \<and> le_max l mx) (map (cell k) rows)"
  by (induction rows) (simp_all add: in_range_def)

text \<open>
  C3, as the claim states it, fails: the selector recognition reads column 1, not column 4,
  and age has the maximum 100. In a row whose race cell is 2 and whose identity cell is 7
  the label loaded for recognition is 2; of two rows with ages 101 and 30 only the second
  is kept.
\<close>

theorem C3_counterexample:
  "map_sum id targets (ImageListRaw_init ''recognition'' None None [(''a.jpg'', [2, 0, 30, 7])])
     = Inr [2]
   \<and> map_sum id targets (ImageListRaw_init ''recognition'' None None [(''a.jpg'', [2, 0, 30, 7])])
     \<noteq> Inr [cell 4 (''a.jpg'', [2, 0, 30, 7])]
   \<and> map_sum id targets
       (ImageListRaw_init ''age'' None None [(''a.jpg'', [0, 0, 101, 7]), (''b.jpg'', [0, 0, 30, 7])])
     = Inr [30]
   \<and> map_sum id targets
       (ImageListRaw_init ''age'' None None [(''a.jpg'', [0, 0, 101, 7]), (''b.jpg'', [0, 0, 30, 7])])
     \<noteq> Inr [101, 30]"
  by (simp add: ImageListRaw_init_def ATTRIBUTES_def MAX_CLASS_def column_def cell_def
      in_int64_def int64_wrap_def)

text \<open>
  C3, amended. The loader reads race from column 1, gender from column 2, age from
  column 3 and recognition from column 1, and keeps the labels \<open>l\<close> with \<open>0 \<le> l\<close> and
  \<open>l \<le> 4\<close> for race, \<open>l \<le> 1\<close> for gender, \<open>l \<le> 100\<close> for age, and no upper bound for
  recognition: the labels of a constructed dataset are the cells of that column that pass
  this test, in manifest order. The class count of age is the largest label kept.
\<close>

theorem C3_columns_and_bounds:
  "ATTRIBUTES ''race'' = Some 1 \<and> ATTRIBUTES ''gender'' = Some 2 \<and> ATTRIBUTES ''age'' = Some 3
   \<and> ATTRIBUTES ''recognition'' = Some 1
   \<and> MAX_CLASS ''race'' = Some (Finite 4) \<and> MAX_CLASS ''gender'' = Some (Finite 1)
   \<and> MAX_CLASS ''age'' = Some (Finite 100) \<and> MAX_CLASS ''recognition'' = Some Infinite
   \<and> le_max l (Finite m) = (l \<le> m) \<and> le_max l Infinite
   \<and> (ImageListRaw_init a src msrc rows = Inr ds \<longrightarrow>
        (\<exists>k mx. ATTRIBUTES a = Some k \<and> MAX_CLASS a = Some mx
           \<and> targets ds = filter (\<lambda>l. 0 \<le> l \<and> le_max l mx) (map (cell k) rows))
        \<and> (a = ''age'' \<longrightarrow> classnum ds = Max (set (targets ds))))"
proof -
  have "(\<exists>k mx. ATTRIBUTES a = Some k \<and> MAX_CLASS a = Some mx
           \<and> targets ds = filter (\<lambda>l. 0 \<le> l \<and> le_max l mx) (map (cell k) rows))
        \<and> (a = ''age'' \<longrightarrow> classnum ds = Max (set (targets ds)))"
    if ds: "ImageListRaw_init a src msrc rows = Inr ds"
  proof -
    from ImageListRaw_init_Inr [OF ds] obtain k mx where
      "ATTRIBUTES a = Some k" "MAX_CLASS a = Some mx"
      "targets ds = map (cell k) (filter (in_range k mx) rows)"
      "classnum ds = (if a = ''age'' then Max (set (targets ds))
                      else int64_wrap (Max (set (targets ds)) + 1))"
      by blast
    then show ?thesis
      unfolding filter_map_cell by auto
  qed
  then have main: "ImageListRaw_init a src msrc rows = Inr ds \<longrightarrow>
        (\<exists>k mx. ATTRIBUTES a = Some k \<and> MAX_CLASS a = Some mx
           \<and> targets ds = filter (\<lambda>l. 0 \<le> l \<and> le_max l mx) (map (cell k) rows))
        \<and> (a = ''age'' \<longrightarrow> classnum ds = Max (set (targets ds)))"
    by blast
  show ?thesis
    by (intro conjI main) (simp_all add: example_attrs)
qed

theorem C3_columns_and_bounds_witness:
  "ImageListRaw_init ''age'' (Some ''imgs'') (Some ''masks'') example_rows =
     Inr \<lparr>samples = [''imgs/a.jpg'', ''imgs/b.jpg''],
          masks = MasksList [''masks/a_mask.png'', ''masks/b_mask.png''],
          targets = [30, 45], classnum = 45\<rparr>
   \<and> (\<exists>k mx. ATTRIBUTES ''age'' = Some k \<and> MAX_CLASS ''age'' = Some mx
         \<and> [30, 45] = filter (\<lambda>l. 0 \<le> l \<and> le_max l mx) (map (cell k) example_rows))
   \<and> (45::int) = Max (set [30, 45])"
proof -
  have i: "ImageListRaw_init ''age'' (Some ''imgs'') (Some ''masks'') example_rows =
     Inr \<lparr>samples = [''imgs/a.jpg'', ''imgs/b.jpg''],
          masks = MasksList [''masks/a_mask.png'', ''masks/b_mask.png''],
          targets = [30, 45], classnum = 45\<rparr>"
    by (simp add: ImageListRaw_init_def ATTRIBUTES_def MAX_CLASS_def column_def cell_def
      in_int64_def int64_wrap_def
        path_join_def mask_name_def example_rows_def)
  from C3_columns_and_bounds [of 0 0 "''age''" "Some ''imgs''" "Some ''masks''" example_rows
      "\<lparr>samples = [''imgs/a.jpg'', ''imgs/b.jpg''],
          masks = MasksList [''masks/a_mask.png'', ''masks/b_mask.png''],
          targets = [30, 45], classnum = 45\<rparr>"] i
  show ?thesis by (simp add: cell_def example_rows_def)
qed

subsection \<open>The class count (C4)\<close>

lemma example_init_age:
  "ImageListRaw_init ''age'' (Some ''imgs'') (Some ''masks'') example_rows =
     Inr \<lparr>samples = [''imgs/a.jpg'', ''imgs/b.jpg''],
          masks = MasksList [''masks/a_mask.png'', ''masks/b_mask.png''],
          targets = [30, 45], classnum = 45\<rparr>"
  by (simp add: ImageListRaw_init_def ATTRIBUTES_def MAX_CLASS_def column_def cell_def
      in_int64_def int64_wrap_def
      path_join_def mask_name_def example_rows_def)

lemma example_iter_age:
  "CustomRawLoader_iter example_files
     \<lparr>samples = [''imgs/a.jpg'', ''imgs/b.jpg''],
      masks = MasksList [''masks/a_mask.png'', ''masks/b_mask.png''],
      targets = [30, 45], classnum = 45\<rparr> =
     [Inr (''A'', 30, Some ''MA''), Inr (''B'', 45, Some ''MB'')]"
  by (simp add: CustomRawLoader_iter_def len_def getitem_def example_files_def upt_rec)

lemma example_run_age:
  "fst (list2lmdb example_codec example_files ''age'' (Some ''imgs'') (Some ''masks'')
          example_rows 5000 empty_db) = Inr ()"
  by (simp add: list2lmdb_def example_init_age example_iter_age enumerate_eq_zip upt_rec
      Let_def)

lemma int64_wrap_id: "in_int64 x \<Longrightarrow> int64_wrap x = x"
  by (simp add: in_int64_def int64_wrap_def)

lemma int64_wrap_max: "int64_wrap (2 ^ 63 - 1 + 1) = - (2 ^ 63)"
  by (simp add: int64_wrap_def)

lemma example_init_wrap:
  "ImageListRaw_init ''recognition'' (Some ''imgs'') (Some ''masks'')
     [(''a.jpg'', [9223372036854775807, 0, 30, 7])] =
     Inr \<lparr>samples = [''imgs/a.jpg''], masks = MasksList [''masks/a_mask.png''],
          targets = [9223372036854775807], classnum = - 9223372036854775808\<rparr>"
  by (simp add: ImageListRaw_init_def ATTRIBUTES_def MAX_CLASS_def column_def cell_def
      in_int64_def int64_wrap_def path_join_def mask_name_def)

lemma example_iter_wrap:
  "CustomRawLoader_iter example_files
     \<lparr>samples = [''imgs/a.jpg''], masks = MasksList [''masks/a_mask.png''],
      targets = [9223372036854775807], classnum = - 9223372036854775808\<rparr> =
     [Inr (''A'', 9223372036854775807, Some ''MA'')]"
  by (simp add: CustomRawLoader_iter_def len_def getitem_def example_files_def upt_rec)

lemma example_run_wrap:
  "fst (list2lmdb example_codec example_files ''recognition'' (Some ''imgs'') (Some ''masks'')
          [(''a.jpg'', [9223372036854775807, 0, 30, 7])] 5000 empty_db) = Inr ()"
  by (simp add: list2lmdb_def example_init_wrap example_iter_wrap enumerate_eq_zip upt_rec
      Let_def)

lemma classnum_stored:
  assumes run: "list2lmdb c files a src msrc rows w db0 = (Inr (), db')"
    and ds: "ImageListRaw_init a src msrc rows = Inr ds"
  shows "db_get db' ''__classnum__'' = Some (dumps_pyarrow c (PyInt (classnum ds)))"
proof -
  from list2lmdb_Inr [OF run] ds obtain items where
    "store db' = store db0 @ map (entry c) (enumerate 0 items) @ metadata c ds (len ds)"
    by auto
  then have "store db' = (store db0 @ map (entry c) (enumerate 0 items)) @ metadata c ds (len ds)"
    by simp
  then show ?thesis by (rule db_get_metadata(3))
qed

text \<open>
  C4, as the claim states it, fails: the class count is computed in 64-bit signed
  arithmetic. For recognition, whose labels have no upper bound, a manifest whose largest
  label is \<open>2\<^sup>6\<^sup>3 - 1\<close> gives a run that returns normally and stores \<open>- 2\<^sup>6\<^sup>3\<close> under
  \<open>__classnum__\<close>, which is not the maximum plus one.
\<close>

theorem C4_counterexample:
  "fst (list2lmdb example_codec example_files ''recognition'' (Some ''imgs'') (Some ''masks'')
          [(''a.jpg'', [9223372036854775807, 0, 30, 7])] 5000 empty_db) = Inr ()
   \<and> map (cell 1) (filter (in_range 1 Infinite) [(''a.jpg'', [9223372036854775807, 0, 30, 7])])
        = [9223372036854775807]
   \<and> db_get (snd (list2lmdb example_codec example_files ''recognition'' (Some ''imgs'')
          (Some ''masks'') [(''a.jpg'', [9223372036854775807, 0, 30, 7])] 5000 empty_db))
        ''__classnum__'' =
        Some (dumps_pyarrow example_codec (PyInt (- 9223372036854775808)))
   \<and> dumps_pyarrow example_codec (PyInt (- 9223372036854775808)) \<noteq>
        dumps_pyarrow example_codec (PyInt (Max (set [9223372036854775807]) + 1))"
proof -
  have run: "list2lmdb example_codec example_files ''recognition'' (Some ''imgs'') (Some ''masks'')
          [(''a.jpg'', [9223372036854775807, 0, 30, 7])] 5000 empty_db =
        (Inr (), snd (list2lmdb example_codec example_files ''recognition'' (Some ''imgs'')
          (Some ''masks'') [(''a.jpg'', [9223372036854775807, 0, 30, 7])] 5000 empty_db))"
    using example_run_wrap by (simp add: prod_eq_iff)
  have l: "map (cell 1) (filter (in_range 1 Infinite) [(''a.jpg'', [9223372036854775807, 0, 30, 7])])
        = [9223372036854775807]"
    by (simp add: in_range_def cell_def)
  have g: "db_get (snd (list2lmdb example_codec example_files ''recognition'' (Some ''imgs'')
          (Some ''masks'') [(''a.jpg'', [9223372036854775807, 0, 30, 7])] 5000 empty_db))
        ''__classnum__'' =
        Some (dumps_pyarrow example_codec (PyInt (- 9223372036854775808)))"
    using classnum_stored [OF run example_init_wrap] by simp
  have "list_all is_digit (format_nat (nat \<bar>Max (set [9223372036854775807]) + 1\<bar>))"
    by (rule format_nat_digits)
  moreover have "format_nat (nat \<bar>Max (set [9223372036854775807]) + 1\<bar>) \<noteq> []"
    by (rule format_nat_nonempty)
  ultimately have n: "dumps_pyarrow example_codec (PyInt (- 9223372036854775808)) \<noteq>
        dumps_pyarrow example_codec (PyInt (Max (set [9223372036854775807]) + 1))"
    by (cases "format_nat (nat \<bar>Max (set [9223372036854775807]) + 1\<bar>)")
      (auto simp: dumps_pyarrow_def example_codec_def is_digit_def)
  from example_run_wrap l g n show ?thesis by blast
qed


text \<open>
  C4, amended. When a run returns normally, the labels that pass the filter are not
  empty, and the value under \<open>__classnum__\<close> encodes the class count of the dataset. It is
  the maximum of those labels for the attribute age, and the maximum plus one for race
  and gender. For recognition it is the maximum plus one in 64-bit signed arithmetic:
  the maximum plus one when the maximum is below \<open>2\<^sup>6\<^sup>3 - 1\<close>, and \<open>- 2\<^sup>6\<^sup>3\<close> when the
  maximum is \<open>2\<^sup>6\<^sup>3 - 1\<close>, the largest label the loader accepts.
\<close>

theorem C4_classnum:
  assumes run: "list2lmdb c files a src msrc rows w db0 = (Inr (), db')"
    and k: "ATTRIBUTES a = Some k" and mx: "MAX_CLASS a = Some mx"
    and labels: "labels = map (cell k) (filter (in_range k mx) rows)"
  shows "labels \<noteq> []
     \<and> Max (set labels) \<le> 2 ^ 63 - 1
     \<and> (\<exists>ds. ImageListRaw_init a src msrc rows = Inr ds
           \<and> db_get db' ''__classnum__'' = Some (dumps_pyarrow c (PyInt (classnum ds)))
           \<and> (a = ''age'' \<longrightarrow> classnum ds = Max (set labels))
           \<and> (a = ''race'' \<or> a = ''gender'' \<longrightarrow> classnum ds = Max (set labels) + 1)
           \<and> (a = ''recognition'' \<longrightarrow>
                 classnum ds = int64_wrap (Max (set labels) + 1)
                 \<and> (Max (set labels) < 2 ^ 63 - 1 \<longrightarrow> classnum ds = Max (set labels) + 1)
                 \<and> (Max (set labels) = 2 ^ 63 - 1 \<longrightarrow> classnum ds = - (2 ^ 63))))"
proof -
  from list2lmdb_Inr [OF run] obtain ds where
    ds: "ImageListRaw_init a src msrc rows = Inr ds"
    by blast
  from ImageListRaw_init_Inr [OF ds] k mx labels
  have t: "targets ds = labels" and ne: "labels \<noteq> []"
    and i64: "list_all (\<lambda>r. in_int64 (cell k r)) rows"
    and cn: "classnum ds = (if a = ''age'' then Max (set labels)
                            else int64_wrap (Max (set labels) + 1))"
    by auto
  have "Max (set labels) \<in> set labels"
    using ne by simp
  then obtain r where r: "r \<in> set rows" "in_range k mx r" "Max (set labels) = cell k r"
    unfolding labels by auto
  have in64: "in_int64 (Max (set labels))"
    using i64 r(1) r(3) by (simp add: list_all_iff)
  have lo: "0 \<le> Max (set labels)" and hi: "le_max (Max (set labels)) mx"
    using r(2) r(3) by (simp_all add: in_range_def)
  have top: "Max (set labels) \<le> 2 ^ 63 - 1"
    using in64 by (simp add: in_int64_def)
  have 1: "a = ''age'' \<longrightarrow> classnum ds = Max (set labels)"
    using cn by simp
  have 2: "a = ''race'' \<or> a = ''gender'' \<longrightarrow> classnum ds = Max (set labels) + 1"
  proof
    assume a: "a = ''race'' \<or> a = ''gender''"
    then have "mx = Finite 4 \<or> mx = Finite 1"
      using mx by (auto simp: MAX_CLASS_def)
    with hi have "Max (set labels) \<le> 4"
      by auto
    with lo have "in_int64 (Max (set labels) + 1)"
      by (simp add: in_int64_def)
    with cn a show "classnum ds = Max (set labels) + 1"
      by (auto simp: int64_wrap_id)
  qed
  have 3: "a = ''recognition'' \<longrightarrow>
                 classnum ds = int64_wrap (Max (set labels) + 1)
                 \<and> (Max (set labels) < 2 ^ 63 - 1 \<longrightarrow> classnum ds = Max (set labels) + 1)
                 \<and> (Max (set labels) = 2 ^ 63 - 1 \<longrightarrow> classnum ds = - (2 ^ 63))"
  proof
    assume a: "a = ''recognition''"
    then have c: "classnum ds = int64_wrap (Max (set labels) + 1)"
      using cn by simp
    have "classnum ds = Max (set labels) + 1" if "Max (set labels) < 2 ^ 63 - 1"
    proof -
      from that lo have "in_int64 (Max (set labels) + 1)"
        by (simp add: in_int64_def)
      with c show ?thesis by (simp add: int64_wrap_id)
    qed
    moreover have "classnum ds = - (2 ^ 63)" if "Max (set labels) = 2 ^ 63 - 1"
      unfolding c that by (rule int64_wrap_max)
    ultimately show "classnum ds = int64_wrap (Max (set labels) + 1)
                 \<and> (Max (set labels) < 2 ^ 63 - 1 \<longrightarrow> classnum ds = Max (set labels) + 1)
                 \<and> (Max (set labels) = 2 ^ 63 - 1 \<longrightarrow> classnum ds = - (2 ^ 63))"
      using c by blast
  qed
  from ne top ds classnum_stored [OF run ds] 1 2 3 show ?thesis
    by blast
qed

theorem C4_classnum_witness:
  "fst (list2lmdb example_codec example_files ''gender'' (Some ''imgs'') (Some ''masks'')
          example_rows 5000 empty_db) = Inr ()
   \<and> map (cell 2) (filter (in_range 2 (Finite 1)) example_rows) = [0, 1]
   \<and> db_get (snd (list2lmdb example_codec example_files ''gender'' (Some ''imgs'')
          (Some ''masks'') example_rows 5000 empty_db)) ''__classnum__'' =
        Some (dumps_pyarrow example_codec (PyInt (Max (set [0, 1]) + 1)))
   \<and> fst (list2lmdb example_codec example_files ''age'' (Some ''imgs'') (Some ''masks'')
          example_rows 5000 empty_db) = Inr ()
   \<and> map (cell 3) (filter (in_range 3 (Finite 100)) example_rows) = [30, 45]
   \<and> db_get (snd (list2lmdb example_codec example_files ''age'' (Some ''imgs'')
          (Some ''masks'') example_rows 5000 empty_db)) ''__classnum__'' =
        Some (dumps_pyarrow example_codec (PyInt (Max (set [30, 45]))))
   \<and> fst (list2lmdb example_codec example_files ''recognition'' (Some ''imgs'') (Some ''masks'')
          [(''a.jpg'', [9223372036854775807, 0, 30, 7])] 5000 empty_db) = Inr ()
   \<and> Max (set [9223372036854775807 :: int]) = 2 ^ 63 - 1
   \<and> db_get (snd (list2lmdb example_codec example_files ''recognition'' (Some ''imgs'')
          (Some ''masks'') [(''a.jpg'', [9223372036854775807, 0, 30, 7])] 5000 empty_db))
        ''__classnum__'' =
        Some (dumps_pyarrow example_codec (PyInt (- (2 ^ 63))))"
proof -
  have run_g: "list2lmdb example_codec example_files ''gender'' (Some ''imgs'') (Some ''masks'')
          example_rows 5000 empty_db = (Inr (), snd (list2lmdb example_codec example_files
          ''gender'' (Some ''imgs'') (Some ''masks'') example_rows 5000 empty_db))"
    using example_run_gender by (simp add: prod_eq_iff)
  have run_a: "list2lmdb example_codec example_files ''age'' (Some ''imgs'') (Some ''masks'')
          example_rows 5000 empty_db = (Inr (), snd (list2lmdb example_codec example_files
          ''age'' (Some ''imgs'') (Some ''masks'') example_rows 5000 empty_db))"
    using example_run_age by (simp add: prod_eq_iff)
  have run_r: "list2lmdb example_codec example_files ''recognition'' (Some ''imgs'') (Some ''masks'')
          [(''a.jpg'', [9223372036854775807, 0, 30, 7])] 5000 empty_db =
        (Inr (), snd (list2lmdb example_codec example_files ''recognition'' (Some ''imgs'')
          (Some ''masks'') [(''a.jpg'', [9223372036854775807, 0, 30, 7])] 5000 empty_db))"
    using example_run_wrap by (simp add: prod_eq_iff)
  have lg: "[0, 1] = map (cell 2) (filter (in_range 2 (Finite 1)) example_rows)"
    by (simp add: in_range_def cell_def example_rows_def)
  have la: "[30, 45] = map (cell 3) (filter (in_range 3 (Finite 100)) example_rows)"
    by (simp add: in_range_def cell_def example_rows_def)
  have lr: "[9223372036854775807] =
      map (cell 1) (filter (in_range 1 Infinite) [(''a.jpg'', [9223372036854775807, 0, 30, 7])])"
    by (simp add: in_range_def cell_def)
  have m: "Max (set [9223372036854775807 :: int]) = 2 ^ 63 - 1"
    by simp
  from C4_classnum [OF run_g example_attrs(2) example_attrs(6) lg]
  have g: "db_get (snd (list2lmdb example_codec example_files ''gender'' (Some ''imgs'')
          (Some ''masks'') example_rows 5000 empty_db)) ''__classnum__'' =
        Some (dumps_pyarrow example_codec (PyInt (Max (set [0, 1]) + 1)))"
    by auto
  from C4_classnum [OF run_a example_attrs(3) example_attrs(7) la]
  have a: "db_get (snd (list2lmdb example_codec example_files ''age'' (Some ''imgs'')
          (Some ''masks'') example_rows 5000 empty_db)) ''__classnum__'' =
        Some (dumps_pyarrow example_codec (PyInt (Max (set [30, 45]))))"
    by auto
  from C4_classnum [OF run_r example_attrs(4) example_attrs(8) lr] m
  have r: "db_get (snd (list2lmdb example_codec example_files ''recognition'' (Some ''imgs'')
          (Some ''masks'') [(''a.jpg'', [9223372036854775807, 0, 30, 7])] 5000 empty_db))
        ''__classnum__'' =
        Some (dumps_pyarrow example_codec (PyInt (- (2 ^ 63))))"
    by auto
  from example_run_gender example_run_age example_run_wrap lg [symmetric] la [symmetric] m g a r
  show ?thesis
    by blast
qed

subsection \<open>Mask paths (C9)\<close>

text \<open>
  C9. The dataset holds mask paths only when a mask root was given, and it holds them
  whenever a source root and a mask root were both given. The mask path of a kept row with
  sample reference \<open>P\<close> and mask root \<open>M\<close> is the join of \<open>M\<close> and \<open>P\<close> without its last four
  characters, followed by \<open>_mask.png\<close>.
\<close>

theorem C9_mask_paths:
  assumes init: "ImageListRaw_init a src msrc rows = Inr ds"
    and k: "ATTRIBUTES a = Some k" and mx: "MAX_CLASS a = Some mx"
  shows "(\<forall>ms. masks ds = MasksList ms \<longrightarrow>
            (\<exists>M. msrc = Some M \<and>
               ms = map (\<lambda>r. take (length (path_join M (fst r)) - 4) (path_join M (fst r))
                              @ ''_mask.png'')
                        (filter (in_range k mx) rows)))
       \<and> (src \<noteq> None \<and> msrc \<noteq> None \<longrightarrow> (\<exists>ms. masks ds = MasksList ms))"
proof -
  from ImageListRaw_init_Inr [OF init] k mx
  have m: "masks ds = (case src of
                          Some s \<Rightarrow>
                            (case msrc of
                               Some m \<Rightarrow> MasksList (map (\<lambda>r. mask_name (path_join m (fst r)))
                                                     (filter (in_range k mx) rows))
                             | None \<Rightarrow> MasksNone)
                        | None \<Rightarrow> MasksUnset)"
    by auto
  show ?thesis
    unfolding m by (cases src; cases msrc) (simp_all add: mask_name_def)
qed

theorem C9_mask_paths_witness:
  "ImageListRaw_init ''gender'' (Some ''imgs'') (Some ''masks'') example_rows =
     Inr \<lparr>samples = [''imgs/a.jpg'', ''imgs/b.jpg''],
          masks = MasksList [''masks/a_mask.png'', ''masks/b_mask.png''],
          targets = [0, 1], classnum = 2\<rparr>
   \<and> [''masks/a_mask.png'', ''masks/b_mask.png''] =
        map (\<lambda>r. take (length (path_join ''masks'' (fst r)) - 4) (path_join ''masks'' (fst r))
                    @ ''_mask.png'')
            (filter (in_range 2 (Finite 1)) example_rows)
   \<and> path_join ''masks'' ''a.jpg'' = ''masks/a.jpg''"
proof -
  from C9_mask_paths [OF example_init_gender example_attrs(2) example_attrs(6)]
  have "[''masks/a_mask.png'', ''masks/b_mask.png''] =
        map (\<lambda>r. take (length (path_join ''masks'' (fst r)) - 4) (path_join ''masks'' (fst r))
                    @ ''_mask.png'')
            (filter (in_range 2 (Finite 1)) example_rows)"
    by simp
  moreover have "path_join ''masks'' ''a.jpg'' = ''masks/a.jpg''"
    by (simp add: path_join_def)
  ultimately show ?thesis
    using example_init_gender by blast
qed

subsection \<open>An empty dataset (C10)\<close>

text \<open>
  C10. When the column of the attribute exists and no row passes the filter, construction
  of the dataset raises, and the run ends with that error and the database as it was: not
  opened, nothing put. The error is ValueError, raised at the maximum of the empty label
  array, when the cells of the column are 64-bit signed integers; a column with a cell
  outside that range raises OverflowError when it is converted, before the filter runs.
\<close>

theorem C10_empty_raises:
  assumes k: "ATTRIBUTES a = Some k" and mx: "MAX_CLASS a = Some mx"
    and cols: "list_all (\<lambda>r. k \<le> length (snd r)) rows"
    and empty: "filter (in_range k mx) rows = []"
  shows "ImageListRaw_init a src msrc rows =
           Inl (if list_all (\<lambda>r. in_int64 (cell k r)) rows then ValueError else OverflowError)
       \<and> list2lmdb c files a src msrc rows w db0 =
           (Inl (if list_all (\<lambda>r. in_int64 (cell k r)) rows then ValueError else OverflowError),
            db0)"
proof (cases "list_all (\<lambda>r. in_int64 (cell k r)) rows")
  case cells: True
  have "ImageListRaw_init a src msrc rows = Inl ValueError"
    unfolding ImageListRaw_init_unfold [OF k mx cols ATTRIBUTES_pos [OF k] cells] empty by simp
  with list2lmdb_init_Inl [of a src msrc rows ValueError c files w db0] cells show ?thesis
    by simp
next
  case False
  with k mx cols ATTRIBUTES_pos [OF k]
  have "ImageListRaw_init a src msrc rows = Inl OverflowError"
    by (simp add: ImageListRaw_init_def column_def)
  with list2lmdb_init_Inl [of a src msrc rows OverflowError c files w db0] False show ?thesis
    by simp
qed

theorem C10_empty_raises_witness:
  "ATTRIBUTES ''gender'' = Some 2 \<and> MAX_CLASS ''gender'' = Some (Finite 1)
   \<and> list_all (\<lambda>r. 2 \<le> length (snd r))
        ([(''a.jpg'', [0, 5, 30, 7]), (''b.jpg'', [1, -1, 30, 7])] :: row list)
   \<and> filter (in_range 2 (Finite 1)) [(''a.jpg'', [0, 5, 30, 7]), (''b.jpg'', [1, -1, 30, 7])] = []
   \<and> ImageListRaw_init ''gender'' (Some ''imgs'') (Some ''masks'')
        [(''a.jpg'', [0, 5, 30, 7]), (''b.jpg'', [1, -1, 30, 7])] = Inl ValueError
   \<and> list2lmdb example_codec example_files ''gender'' (Some ''imgs'') (Some ''masks'')
        [(''a.jpg'', [0, 5, 30, 7]), (''b.jpg'', [1, -1, 30, 7])] 5000 empty_db =
        (Inl ValueError, empty_db)"
proof -
  have cols: "list_all (\<lambda>r. 2 \<le> length (snd r))
                [(''a.jpg'', [0, 5, 30, 7]), (''b.jpg'', [1, -1, 30, 7 :: int])]"
    by simp
  have cells: "list_all (\<lambda>r. in_int64 (cell 2 r))
                [(''a.jpg'', [0, 5, 30, 7]), (''b.jpg'', [1, -1, 30, 7])]"
    by (simp add: in_int64_def cell_def)
  have empty: "filter (in_range 2 (Finite 1))
                 [(''a.jpg'', [0, 5, 30, 7]), (''b.jpg'', [1, -1, 30, 7])] = []"
    by (simp add: in_range_def cell_def)
  from C10_empty_raises [OF example_attrs(2) example_attrs(6) cols empty,
      of "Some ''imgs''" "Some ''masks''" example_codec example_files 5000 empty_db]
  have "ImageListRaw_init ''gender'' (Some ''imgs'') (Some ''masks'')
          [(''a.jpg'', [0, 5, 30, 7]), (''b.jpg'', [1, -1, 30, 7])] = Inl ValueError
      \<and> list2lmdb example_codec example_files ''gender'' (Some ''imgs'') (Some ''masks'')
          [(''a.jpg'', [0, 5, 30, 7]), (''b.jpg'', [1, -1, 30, 7])] 5000 empty_db =
          (Inl ValueError, empty_db)"
    unfolding if_P [OF cells] .
  with example_attrs(2) example_attrs(6) cols empty show ?thesis by blast
qed

subsection \<open>A run that fails at the third of ten samples\<close>

lemma example_init10:
  "ImageListRaw_init ''race'' (Some ''imgs'') (Some ''masks'') example_rows10 =
     Inr \<lparr>samples = [''imgs/f0.jpg'', ''imgs/f1.jpg'', ''imgs/f2.jpg'', ''imgs/f3.jpg'',
                     ''imgs/f4.jpg'', ''imgs/f5.jpg'', ''imgs/f6.jpg'', ''imgs/f7.jpg'',
                     ''imgs/f8.jpg'', ''imgs/f9.jpg''],
          masks = MasksList [''masks/f0_mask.png'', ''masks/f1_mask.png'', ''masks/f2_mask.png'',
                     ''masks/f3_mask.png'', ''masks/f4_mask.png'', ''masks/f5_mask.png'',
                     ''masks/f6_mask.png'', ''masks/f7_mask.png'', ''masks/f8_mask.png'',
                     ''masks/f9_mask.png''],
          targets = [0, 0, 0, 0, 0, 0, 0, 0, 0, 0], classnum = 1\<rparr>"
  by code_simp

lemma example_iter10:
  "CustomRawLoader_iter example_files10
     \<lparr>samples = [''imgs/f0.jpg'', ''imgs/f1.jpg'', ''imgs/f2.jpg'', ''imgs/f3.jpg'',
                     ''imgs/f4.jpg'', ''imgs/f5.jpg'', ''imgs/f6.jpg'', ''imgs/f7.jpg'',
                     ''imgs/f8.jpg'', ''imgs/f9.jpg''],
          masks = MasksList [''masks/f0_mask.png'', ''masks/f1_mask.png'', ''masks/f2_mask.png'',
                     ''masks/f3_mask.png'', ''masks/f4_mask.png'', ''masks/f5_mask.png'',
                     ''masks/f6_mask.png'', ''masks/f7_mask.png'', ''masks/f8_mask.png'',
                     ''masks/f9_mask.png''],
          targets = [0, 0, 0, 0, 0, 0, 0, 0, 0, 0], classnum = 1\<rparr> =
     [Inr (''X'', 0, Some ''X''), Inr (''X'', 0, Some ''X''),
      Inl (FileNotFoundError ''imgs/f2.jpg''),
      Inr (''X'', 0, Some ''X''), Inr (''X'', 0, Some ''X''), Inr (''X'', 0, Some ''X''),
      Inr (''X'', 0, Some ''X''), Inr (''X'', 0, Some ''X''), Inr (''X'', 0, Some ''X''),
      Inr (''X'', 0, Some ''X'')]"
  by code_simp

lemma example_run10:
  "list2lmdb example_codec example_files10 ''race'' (Some ''imgs'') (Some ''masks'')
     example_rows10 5000 empty_db =
   (Inl (FileNotFoundError ''imgs/f2.jpg''),
    \<lparr>store = [(''0'', ''(bX;0bX;)'')], txn = [(''1'', ''(bX;0bX;)'')],
     events = [EvOpen 6021120, EvBegin, EvPut ''0'' ''(bX;0bX;)'', EvCommit, EvBegin,
               EvPut ''1'' ''(bX;0bX;)'']\<rparr>)"
  by (simp add: list2lmdb_def example_init10 example_iter10 run_simps)


lemma db_get_append_other:
  assumes "key \<notin> fst ` set cs"
  shows "map_of (rev (pre @ cs)) key = map_of (rev pre) key"
proof -
  have "map_of (rev cs) key = None"
    using assms by (simp add: map_of_eq_None_iff)
  then show ?thesis
    by (simp add: map_add_def)
qed

subsection \<open>Runs without a mask root (C5)\<close>

text \<open>Without a mask root no run returns normally, whatever the manifest and the files.\<close>

lemma list2lmdb_needs_mask_root:
  assumes run: "list2lmdb c files a src None rows w db0 = (res, db')"
  shows "\<exists>e. res = Inl e"
proof (cases res)
  case (Inl e)
  then show ?thesis by blast
next
  case (Inr u)
  then have res: "res = Inr ()" by simp
  from list2lmdb_Inr [OF run [unfolded res]] obtain ds items where
    ds: "ImageListRaw_init a src None rows = Inr ds"
    and it: "CustomRawLoader_iter files ds = map Inr items"
    and len: "length items = len ds" and pos: "0 < len ds"
    by blast
  have "getitem files ds 0 = CustomRawLoader_iter files ds ! 0"
    using pos by (simp add: CustomRawLoader_iter_def)
  also have "\<dots> = map Inr items ! 0"
    by (simp only: it)
  also have "\<dots> = Inr (items ! 0)"
    using pos len by simp
  finally have "getitem files ds 0 = Inr (items ! 0)" .
  from getitem_Inr [OF this] obtain ms where ms: "masks ds = MasksList ms"
    by blast
  from ImageListRaw_init_Inr [OF ds] have "masks ds = MasksNone \<or> masks ds = MasksUnset"
    by (cases src) auto
  with ms show ?thesis by simp
qed

text \<open>
  C5 fails on the code. With a source root and no mask root, \<open>__getitem__\<close> reads the
  image and then raises at its return statement, so the first sample ends the run: the
  database was opened and a transaction begun, and nothing was put under any key.
\<close>

theorem C5_no_mask_run_raises:
  "list2lmdb example_codec example_files ''gender'' (Some ''imgs'') None example_rows 5000
     empty_db =
   (Inl (UnboundLocalError ''mask''),
    \<lparr>store = [], txn = [], events = [EvOpen 602112, EvBegin]\<rparr>)"
proof -
  have i: "ImageListRaw_init ''gender'' (Some ''imgs'') None example_rows =
     Inr \<lparr>samples = [''imgs/a.jpg'', ''imgs/b.jpg''], masks = MasksNone,
          targets = [0, 1], classnum = 2\<rparr>"
    by (simp add: ImageListRaw_init_def ATTRIBUTES_def MAX_CLASS_def column_def cell_def
      in_int64_def int64_wrap_def
        path_join_def example_rows_def)
  have l: "CustomRawLoader_iter example_files
     \<lparr>samples = [''imgs/a.jpg'', ''imgs/b.jpg''], masks = MasksNone,
      targets = [0, 1], classnum = 2\<rparr> =
     [Inl (UnboundLocalError ''mask''), Inl (UnboundLocalError ''mask'')]"
    by (simp add: CustomRawLoader_iter_def len_def getitem_def example_files_def upt_rec)
  show ?thesis
    by (simp add: list2lmdb_def i l run_simps)
qed

subsection \<open>Metadata come last (C6)\<close>

text \<open>With no failing call the run is the run on the ideal database.\<close>

lemma lmdb_calls_no_faults:
  "lmdb_calls no_faults evs db = (Inr (), fold apply_call evs db)"
  by (induction evs arbitrary: db) (simp_all add: no_faults_def)

lemma write_loop_f_no_faults:
  "write_loop_f no_faults c w ys prev db = write_loop c w ys prev db"
  by (induction c w ys prev db rule: write_loop.induct)
    (simp_all add: no_faults_def Let_def)

lemma list2lmdb_f_no_faults:
  "list2lmdb_f no_faults c files a src msrc rows w db0 = list2lmdb c files a src msrc rows w db0"
proof (cases "ImageListRaw_init a src msrc rows")
  case (Inl e)
  then show ?thesis by (simp add: list2lmdb_f_def list2lmdb_def)
next
  case (Inr ds)
  obtain r db2 where loop: "write_loop c w (enumerate 0 (CustomRawLoader_iter files ds)) None
      (db_begin (lmdb_open ((if msrc \<noteq> None then len ds * 224 * 224 * 3 * 2
                            else len ds * 224 * 224 * 3) * 2) db0)) = (r, db2)"
    by (cases "write_loop c w (enumerate 0 (CustomRawLoader_iter files ds)) None
      (db_begin (lmdb_open ((if msrc \<noteq> None then len ds * 224 * 224 * 3 * 2
                            else len ds * 224 * 224 * 3) * 2) db0))")
  show ?thesis
  proof (cases r)
    case (Inl e)
    with Inr loop show ?thesis
      by (simp add: list2lmdb_f_def list2lmdb_def write_loop_f_no_faults Let_def)
        (simp add: no_faults_def)
  next
    case r: (Inr o1)
    show ?thesis
    proof (cases o1)
      case None
      with Inr loop r show ?thesis
        by (simp add: list2lmdb_f_def list2lmdb_def write_loop_f_no_faults Let_def)
          (simp add: no_faults_def)
    next
      case (Some idx)
      with Inr loop r show ?thesis
        by (simp add: list2lmdb_f_def list2lmdb_def write_loop_f_no_faults Let_def)
          (simp add: no_faults_def)
    qed
  qed
qed

text \<open>Runs on a database whose calls can fail.\<close>

lemma only_data_refl: "only_data E db db"
  unfolding only_data_def by (intro exI [of _ "[]"]) (simp add: puts_def)

lemma only_data_trans:
  assumes "only_data E db db1" and "only_data E db1 db2"
  shows "only_data E db db2"
proof -
  from assms(1) obtain evs1 cs1 where 1: "events db1 = events db @ evs1" "set (puts evs1) \<subseteq> E"
    "store db1 = store db @ cs1" "set cs1 \<union> set (txn db1) \<subseteq> set (txn db) \<union> E"
    unfolding only_data_def by blast
  from assms(2) obtain evs2 cs2 where 2: "events db2 = events db1 @ evs2" "set (puts evs2) \<subseteq> E"
    "store db2 = store db1 @ cs2" "set cs2 \<union> set (txn db2) \<subseteq> set (txn db1) \<union> E"
    unfolding only_data_def by blast
  have a: "events db2 = events db @ (evs1 @ evs2)"
    using 1(1) 2(1) by simp
  have b: "set (puts (evs1 @ evs2)) \<subseteq> E"
    using 1(2) 2(2) by (simp add: puts_append)
  have c: "store db2 = store db @ (cs1 @ cs2)"
    using 1(3) 2(3) by simp
  have d: "set (cs1 @ cs2) \<union> set (txn db2) \<subseteq> set (txn db) \<union> E"
    using 1(4) 2(4) by auto
  from a b c d show ?thesis
    unfolding only_data_def by blast
qed

lemma only_data_mono: "only_data E db db1 \<Longrightarrow> E \<subseteq> E' \<Longrightarrow> only_data E' db db1"
  unfolding only_data_def by blast

lemma only_data_put: "(k, v) \<in> E \<Longrightarrow> only_data E db (txn_put k v db)"
  unfolding only_data_def
  by (intro exI [of _ "[EvPut k v]"] exI [of _ "[]"]) (simp add: txn_put_def puts_def)

lemma only_data_commit: "only_data E db (txn_commit db)"
  unfolding only_data_def
  by (intro exI [of _ "[EvCommit]"] exI [of _ "txn db"]) (simp add: txn_commit_def puts_def)

lemma only_data_begin: "only_data E db (db_begin db)"
  unfolding only_data_def
  by (intro exI [of _ "[EvBegin]"] exI [of _ "[]"]) (simp add: db_begin_def puts_def)

lemma only_data_open: "only_data E db (lmdb_open n db)"
  unfolding only_data_def
  by (intro exI [of _ "[EvOpen n]"] exI [of _ "[]"]) (simp add: lmdb_open_def puts_def)

lemma write_loop_f_only_data:
  "only_data (entry c ` set (delivered ys)) db (snd (write_loop_f raises c w ys prev db))"
proof (induction ys arbitrary: prev db)
  case Nil
  show ?case by (simp add: only_data_refl)
next
  case (Cons y ys)
  obtain idx x where y: "y = (idx, x)" by (cases y)
  show ?case
  proof (cases x)
    case (Inl e)
    then show ?thesis by (simp add: y only_data_refl)
  next
    case (Inr data)
    define E where "E = entry c ` set (delivered ((idx, Inr data) # ys))"
    define db1 where "db1 = txn_put (format_nat idx) (dumps_pyarrow c (record_obj data)) db"
    define db2 where "db2 = txn_commit db1"
    define db3 where "db3 = db_begin db2"
    have sub: "entry c ` set (delivered ys) \<subseteq> E"
      by (auto simp: E_def)
    have "(format_nat idx, dumps_pyarrow c (record_obj data)) \<in> E"
      by (simp add: E_def entry_def)
    then have 1: "only_data E db db1"
      unfolding db1_def by (rule only_data_put)
    have 2: "only_data E db db2"
      unfolding db2_def by (rule only_data_trans [OF 1 only_data_commit])
    have 3: "only_data E db db3"
      unfolding db3_def by (rule only_data_trans [OF 2 only_data_begin])
    have r1: "only_data E db (snd (write_loop_f raises c w ys (Some idx) db1))"
      by (rule only_data_trans [OF 1 only_data_mono [OF Cons.IH sub]])
    have r3: "only_data E db (snd (write_loop_f raises c w ys (Some idx) db3))"
      by (rule only_data_trans [OF 3 only_data_mono [OF Cons.IH sub]])
    define R where "R = snd (write_loop_f raises c w ((idx, Inr data) # ys) prev db)"
    have "R \<in> {db, db1, db2, snd (write_loop_f raises c w ys (Some idx) db1),
             snd (write_loop_f raises c w ys (Some idx) db3)}"
      unfolding R_def by (simp add: db1_def db2_def db3_def)
    with only_data_refl [of E db] 1 2 r1 r3 have "only_data E db R"
      by auto
    then show ?thesis
      unfolding y Inr E_def R_def .
  qed
qed

text \<open>A loop that returns normally met no failing call: it is the loop on the ideal database.\<close>

lemma write_loop_f_Inr:
  "fst (write_loop_f raises c w ys prev db) = Inr r \<Longrightarrow>
     write_loop_f raises c w ys prev db = write_loop c w ys prev db"
proof (induction ys arbitrary: prev db)
  case Nil
  show ?case by simp
next
  case (Cons y ys)
  obtain idx x where y: "y = (idx, x)" by (cases y)
  show ?case
  proof (cases x)
    case (Inl e)
    then show ?thesis by (simp add: y)
  next
    case (Inr data)
    define db1 where "db1 = txn_put (format_nat idx) (dumps_pyarrow c (record_obj data)) db"
    define db3 where "db3 = db_begin (txn_commit db1)"
    note p = Cons.prems [unfolded y Inr]
    have put: "\<not> raises (events db) (EvPut (format_nat idx) (dumps_pyarrow c (record_obj data)))"
      using p by (auto split: if_splits)
    have w: "w \<noteq> 0"
      using p put by (auto split: if_splits)
    show ?thesis
    proof (cases "int idx mod w = 0")
      case True
      have cm: "\<not> raises (events db1) EvCommit"
        using p put w True by (auto simp: db1_def split: if_splits)
      have bg: "\<not> raises (events (txn_commit db1)) EvBegin"
        using p put w True cm by (auto simp: db1_def split: if_splits)
      have step: "write_loop_f raises c w ((idx, Inr data) # ys) prev db =
                  write_loop_f raises c w ys (Some idx) db3"
        using put w True cm bg by (simp add: db1_def db3_def)
      have step': "write_loop c w ((idx, Inr data) # ys) prev db = write_loop c w ys (Some idx) db3"
        using w True by (simp add: db1_def db3_def Let_def)
      from p have "fst (write_loop_f raises c w ys (Some idx) db3) = Inr r"
        unfolding step .
      from Cons.IH [OF this] show ?thesis
        unfolding y Inr step step' .
    next
      case False
      have step: "write_loop_f raises c w ((idx, Inr data) # ys) prev db =
                  write_loop_f raises c w ys (Some idx) db1"
        using put w False by (simp add: db1_def)
      have step': "write_loop c w ((idx, Inr data) # ys) prev db = write_loop c w ys (Some idx) db1"
        using w False by (simp add: db1_def Let_def)
      from p have "fst (write_loop_f raises c w ys (Some idx) db1) = Inr r"
        unfolding step .
      from Cons.IH [OF this] show ?thesis
        unfolding y Inr step step' .
    qed
  qed
qed


lemma db_get_unchanged:
  assumes "store db' = store db0 @ cs" and "key \<notin> fst ` set cs"
  shows "db_get db' key = db_get db0 key"
  unfolding db_get_def assms(1) using assms(2) by (rule db_get_append_other)

lemma entries_not_reserved:
  assumes "kv \<in> entry c ` S"
  shows "fst kv \<notin> reserved_keys"
  using assms by (auto simp: entry_def format_nat_not_reserved)

text \<open>The phases of a run on such a database.\<close>

lemma list2lmdb_f_init_Inl:
  "ImageListRaw_init a src msrc rows = Inl e \<Longrightarrow>
     list2lmdb_f raises c files a src msrc rows w db0 = (Inl e, db0)"
  by (simp add: list2lmdb_f_def)

lemma list2lmdb_f_phases:
  assumes ds: "ImageListRaw_init a src msrc rows = Inr ds"
  shows "list2lmdb_f raises c files a src msrc rows w db0 =
     (case data_phase_f raises c files msrc ds w db0 of
        (Inl e, db) \<Rightarrow> (Inl e, db)
      | (Inr None, db) \<Rightarrow> (Inl (UnboundLocalError ''idx''), db)
      | (Inr (Some idx), db) \<Rightarrow>
          lmdb_calls raises
            (EvBegin # map put_event (metadata c ds (idx + 1)) @ [EvCommit, EvSync, EvClose]) db)"
proof -
  define n where "n = map_size_of msrc ds"
  have n: "(if msrc \<noteq> None then len ds * 224 * 224 * 3 * 2 else len ds * 224 * 224 * 3) * 2 = n"
    by (simp add: n_def map_size_of_def)
  have L: "list2lmdb_f raises c files a src msrc rows w db0 =
     (case lmdb_calls raises [EvOpen n, EvBegin] db0 of
                (Inl e, db) \<Rightarrow> (Inl e, db)
              | (Inr u, db) \<Rightarrow>
          (case write_loop_f raises c w (enumerate 0 (CustomRawLoader_iter files ds)) None db of
                (Inl e, db) \<Rightarrow> (Inl e, db)
              | (Inr last_idx, db) \<Rightarrow>
          (case lmdb_calls raises [EvCommit] db of
                (Inl e, db) \<Rightarrow> (Inl e, db)
              | (Inr u, db) \<Rightarrow>
          (case last_idx of
                None \<Rightarrow> (Inl (UnboundLocalError ''idx''), db)
              | Some idx \<Rightarrow>
                  let keys = map format_nat [0..<idx + 1]
                  in lmdb_calls raises
                       [EvBegin,
                        EvPut ''__keys__'' (dumps_pyarrow c (PyList (map PyBytes keys))),
                        EvPut ''__len__'' (dumps_pyarrow c (PyInt (int (length keys)))),
                        EvPut ''__classnum__'' (dumps_pyarrow c (PyInt (classnum ds))),
                        EvCommit, EvSync, EvClose] db))))"
    unfolding list2lmdb_f_def ds sum.case Let_def n ..
  have D: "data_phase_f raises c files msrc ds w db0 =
     (case lmdb_calls raises [EvOpen n, EvBegin] db0 of
        (Inl e, db) \<Rightarrow> (Inl e, db)
      | (Inr u, db) \<Rightarrow>
          (case write_loop_f raises c w (enumerate 0 (CustomRawLoader_iter files ds)) None db of
             (Inl e, db) \<Rightarrow> (Inl e, db)
           | (Inr last_idx, db) \<Rightarrow>
               (case lmdb_calls raises [EvCommit] db of
                  (Inl e, db) \<Rightarrow> (Inl e, db)
                | (Inr u, db) \<Rightarrow> (Inr last_idx, db))))"
    unfolding data_phase_f_def n_def ..
  have M: "EvBegin # map put_event (metadata c ds (idx + 1)) @ [EvCommit, EvSync, EvClose] =
      [EvBegin,
       EvPut ''__keys__'' (dumps_pyarrow c (PyList (map PyBytes (map format_nat [0..<idx + 1])))),
       EvPut ''__len__'' (dumps_pyarrow c (PyInt (int (length (map format_nat [0..<idx + 1]))))),
       EvPut ''__classnum__'' (dumps_pyarrow c (PyInt (classnum ds))),
       EvCommit, EvSync, EvClose]" for idx
    by (simp add: metadata_def put_event_def)
  obtain x dba where X: "lmdb_calls raises [EvOpen n, EvBegin] db0 = (x, dba)"
    by (cases "lmdb_calls raises [EvOpen n, EvBegin] db0")
  obtain y dbb where Y: "write_loop_f raises c w (enumerate 0 (CustomRawLoader_iter files ds))
      None dba = (y, dbb)"
    by (cases "write_loop_f raises c w (enumerate 0 (CustomRawLoader_iter files ds)) None dba")
  obtain z dbc where Z: "lmdb_calls raises [EvCommit] dbb = (z, dbc)"
    by (cases "lmdb_calls raises [EvCommit] dbb")
  show ?thesis
    unfolding L D M X
    by (cases x; cases y; cases z)
      (simp_all only: Y Z prod.case sum.case option.case Let_def split: option.split)
qed

lemma list2lmdb_f_data_Inl:
  assumes "ImageListRaw_init a src msrc rows = Inr ds"
    and "data_phase_f raises c files msrc ds w db0 = (Inl e, db1)"
  shows "list2lmdb_f raises c files a src msrc rows w db0 = (Inl e, db1)"
  unfolding list2lmdb_f_phases [OF assms(1)] assms(2) by simp

lemma list2lmdb_f_data_None:
  assumes "ImageListRaw_init a src msrc rows = Inr ds"
    and "data_phase_f raises c files msrc ds w db0 = (Inr None, db1)"
  shows "list2lmdb_f raises c files a src msrc rows w db0 = (Inl (UnboundLocalError ''idx''), db1)"
  unfolding list2lmdb_f_phases [OF assms(1)] assms(2) by simp

lemma list2lmdb_f_data_Some:
  assumes "ImageListRaw_init a src msrc rows = Inr ds"
    and "data_phase_f raises c files msrc ds w db0 = (Inr (Some idx), db1)"
  shows "list2lmdb_f raises c files a src msrc rows w db0 =
           lmdb_calls raises
             (EvBegin # map put_event (metadata c ds (idx + 1)) @ [EvCommit, EvSync, EvClose]) db1"
  unfolding list2lmdb_f_phases [OF assms(1)] assms(2) by (simp del: lmdb_calls.simps)


text \<open>Whatever its outcome, the data phase puts and commits records of delivered samples only.\<close>

lemma data_phase_f_writes:
  assumes dp: "data_phase_f raises c files msrc ds w db0 = (r, db1)"
  shows "\<exists>evs cs. events db1 = events db0 @ evs \<and> store db1 = store db0 @ cs
           \<and> set (puts evs) \<union> set cs
                 \<subseteq> entry c ` set (delivered (enumerate 0 (CustomRawLoader_iter files ds)))"
proof -
  define E where "E = entry c ` set (delivered (enumerate 0 (CustomRawLoader_iter files ds)))"
  define n where "n = map_size_of msrc ds"
  define dba where "dba = db_begin (lmdb_open n db0)"
  define dbb where "dbb = snd (write_loop_f raises c w
      (enumerate 0 (CustomRawLoader_iter files ds)) None dba)"
  have good: "\<exists>evs cs. events d = events db0 @ evs \<and> store d = store db0 @ cs
           \<and> set (puts evs) \<union> set cs \<subseteq> E"
    if "only_data E db0 d" and "store d = store db0 \<or> set (txn d) \<subseteq> E
        \<and> (\<exists>cs. store d = store db0 @ cs \<and> set cs \<subseteq> E)" for d
    using that unfolding only_data_def by auto
  have a: "only_data E db0 dba"
    unfolding dba_def by (rule only_data_trans [OF only_data_open only_data_begin])
  have ab: "only_data E dba dbb"
    unfolding dbb_def E_def by (rule write_loop_f_only_data)
  have b: "only_data E db0 dbb"
    by (rule only_data_trans [OF a ab])
  have c: "only_data E db0 (txn_commit dbb)"
    by (rule only_data_trans [OF b only_data_commit])
  have ta: "txn dba = []" and sa: "store dba = store db0"
    by (simp_all add: dba_def db_begin_def lmdb_open_def)
  from ab obtain cs where cs: "store dbb = store dba @ cs" "set cs \<union> set (txn dbb) \<subseteq> E"
    unfolding only_data_def ta by auto
  have g0: "\<exists>evs cs. events db0 = events db0 @ evs \<and> store db0 = store db0 @ cs
           \<and> set (puts evs) \<union> set cs \<subseteq> E"
    by (intro exI [of _ "[]"]) (simp add: puts_def)
  have g1: "\<exists>evs cs. events (lmdb_open n db0) = events db0 @ evs
           \<and> store (lmdb_open n db0) = store db0 @ cs \<and> set (puts evs) \<union> set cs \<subseteq> E"
    by (intro exI [of _ "[EvOpen n]"] exI [of _ "[]"]) (simp add: puts_def lmdb_open_def)
  have g2: "\<exists>evs cs. events dbb = events db0 @ evs \<and> store dbb = store db0 @ cs
           \<and> set (puts evs) \<union> set cs \<subseteq> E"
    using b cs sa unfolding only_data_def by auto
  have g3: "\<exists>evs cs. events (txn_commit dbb) = events db0 @ evs
           \<and> store (txn_commit dbb) = store db0 @ cs \<and> set (puts evs) \<union> set cs \<subseteq> E"
  proof -
    from c obtain evs where "events (txn_commit dbb) = events db0 @ evs" "set (puts evs) \<subseteq> E"
      unfolding only_data_def by auto
    moreover have "store (txn_commit dbb) = store db0 @ (cs @ txn dbb)"
      by (simp add: txn_commit_def cs(1) sa)
    moreover have "set (cs @ txn dbb) \<subseteq> E"
      using cs(2) by simp
    ultimately show ?thesis by blast
  qed
  have "db1 \<in> {db0, lmdb_open n db0, dbb, txn_commit dbb}"
    using dp unfolding data_phase_f_def n_def [symmetric]
    by (auto simp: dba_def dbb_def split: if_splits prod.splits sum.splits)
  with g0 g1 g2 g3 show ?thesis
    unfolding E_def [symmetric] by auto
qed

text \<open>A data phase that returns normally resolved, put and committed every record.\<close>

lemma data_phase_f_Inr:
  assumes dp: "data_phase_f raises c files msrc ds w db0 = (Inr last_idx, db1)"
  shows "\<exists>items. CustomRawLoader_iter files ds = map Inr items
           \<and> events db1 = events db0 @ [EvOpen (map_size_of msrc ds), EvBegin] @
                 concat (map (loop_events c w) (enumerate 0 items)) @ [EvCommit]
           \<and> store db1 = store db0 @ map (entry c) (enumerate 0 items)
           \<and> txn db1 = []
           \<and> last_idx = (if items = [] then None else Some (length items - 1))"
proof -
  define n where "n = map_size_of msrc ds"
  define dba where "dba = db_begin (lmdb_open n db0)"
  define ys where "ys = enumerate 0 (CustomRawLoader_iter files ds)"
  obtain y dbb where Y: "write_loop_f raises c w ys None dba = (y, dbb)"
    by (cases "write_loop_f raises c w ys None dba")
  from dp have y: "y = Inr last_idx" and d1: "db1 = txn_commit dbb"
    unfolding data_phase_f_def n_def [symmetric]
    using Y by (auto simp: dba_def ys_def split: if_splits prod.splits sum.splits)
  have "fst (write_loop_f raises c w ys None dba) = Inr last_idx"
    using Y y by simp
  from write_loop_f_Inr [OF this] Y y
  have W: "write_loop c w ys None dba = (Inr last_idx, dbb)"
    by simp
  from write_loop_returns [of c w ys None dba last_idx] W
  obtain xs where xs: "ys = map (\<lambda>p. (fst p, Inr (snd p))) xs" and w: "ys = [] \<or> w \<noteq> 0"
    by auto
  define items where "items = map snd xs"
  from enumerate_all_Inr [OF xs [unfolded ys_def]]
  have it: "CustomRawLoader_iter files ds = map Inr items" and xs_eq: "xs = enumerate 0 items"
    by (simp_all add: items_def)
  have dba: "events dba = events db0 @ [EvOpen n, EvBegin]" "store dba = store db0" "txn dba = []"
    by (simp_all add: dba_def db_begin_def lmdb_open_def)
  show ?thesis
  proof (cases "items = []")
    case True
    then have "ys = []"
      by (simp add: ys_def it)
    with W have "last_idx = None" and "dbb = dba"
      by simp_all
    with True it d1 dba show ?thesis
      by (intro exI [of _ items]) (simp add: txn_commit_def n_def)
  next
    case False
    then have "ys \<noteq> []"
      by (simp add: ys_def it enumerate_eq_zip)
    with w have w0: "w \<noteq> 0" by simp
    note s = write_loop_success [OF w0, of c xs None dba, folded xs, unfolded W]
    have xs_ne: "xs \<noteq> []"
      using False by (simp add: items_def)
    have "last (map fst xs) = fst (last xs)"
      by (rule last_map [OF xs_ne])
    moreover have "map fst xs = [0..<length items]"
      by (subst xs_eq) simp
    moreover have "last [0..<length items] = length items - 1"
      using False by (simp add: last_upt)
    ultimately have lx: "fst (last xs) = length items - 1"
      by simp
    have l: "last_idx = Some (length items - 1)"
      using s xs_ne lx by simp
    have ev: "events dbb = events dba @ concat (map (loop_events c w) (enumerate 0 items))"
      using s by (simp add: xs_eq)
    have st: "store dbb @ txn dbb = store dba @ txn dba @ map (entry c) (enumerate 0 items)"
      using s by (simp add: xs_eq)
    from False it l ev st dba d1 show ?thesis
      by (intro exI [of _ items]) (simp add: txn_commit_def n_def)
  qed
qed

text \<open>The metadata transaction and the closing calls.\<close>

lemma metadata_calls:
  assumes "lmdb_calls raises
             (EvBegin # map put_event (metadata c ds n) @ [EvCommit, EvSync, EvClose]) db = (r, db')"
  shows "\<exists>tail m. events db' = events db @ tail \<and> store db' = store db @ m
           \<and> (m = [] \<or> m = metadata c ds n)
           \<and> (r = Inr () \<longrightarrow>
                 tail = EvBegin # map put_event (metadata c ds n) @ [EvCommit, EvSync, EvClose]
                 \<and> m = metadata c ds n)"
  using assms
  by (auto simp: metadata_def put_event_def db_begin_def txn_put_def txn_commit_def db_sync_def
      db_close_def split: if_splits)


lemma example_init10_ds:
  "ImageListRaw_init ''race'' (Some ''imgs'') (Some ''masks'') example_rows10 = Inr example_ds10"
  by (simp add: example_init10 example_ds10_def)

lemma example_iter10_all:
  "CustomRawLoader_iter example_files_all example_ds10 =
     [Inr (''X'', 0, Some ''X''), Inr (''X'', 0, Some ''X''), Inr (''X'', 0, Some ''X''),
      Inr (''X'', 0, Some ''X''), Inr (''X'', 0, Some ''X''), Inr (''X'', 0, Some ''X''),
      Inr (''X'', 0, Some ''X''), Inr (''X'', 0, Some ''X''), Inr (''X'', 0, Some ''X''),
      Inr (''X'', 0, Some ''X'')]"
  by code_simp

lemma example_data_phase_faults:
  "data_phase_f example_faults example_codec example_files_all (Some ''masks'') example_ds10 5000
     empty_db =
   (Inl LmdbError,
    \<lparr>store = [(''0'', ''(bX;0bX;)'')], txn = [(''1'', ''(bX;0bX;)'')],
     events = [EvOpen 6021120, EvBegin, EvPut ''0'' ''(bX;0bX;)'', EvCommit, EvBegin,
               EvPut ''1'' ''(bX;0bX;)'']\<rparr>)"
  by (simp add: data_phase_f_def map_size_of_def example_iter10_all example_faults_def run_simps)
    (simp add: example_ds10_def)

lemma example_run10_faults:
  "list2lmdb_f example_faults example_codec example_files_all ''race'' (Some ''imgs'')
     (Some ''masks'') example_rows10 5000 empty_db =
   (Inl LmdbError,
    \<lparr>store = [(''0'', ''(bX;0bX;)'')], txn = [(''1'', ''(bX;0bX;)'')],
     events = [EvOpen 6021120, EvBegin, EvPut ''0'' ''(bX;0bX;)'', EvCommit, EvBegin,
               EvPut ''1'' ''(bX;0bX;)'']\<rparr>)"
  by (rule list2lmdb_f_data_Inl [OF example_init10_ds example_data_phase_faults])

text \<open>
  C6, as the claim states it, fails: the database at the destination is opened as it is,
  so a run can start on a database that a complete run has filled. A run on the example
  manifest returns normally; a second run into the same database fails at the third of
  ten samples, and a reader still finds the count of the first run under \<open>__len__\<close>: the
  aborted database does not have its metadata absent.
\<close>

theorem C6_counterexample:
  "fst (list2lmdb example_codec example_files ''gender'' (Some ''imgs'') (Some ''masks'')
          example_rows 5000 empty_db) = Inr ()
   \<and> fst (list2lmdb example_codec example_files10 ''race'' (Some ''imgs'') (Some ''masks'')
          example_rows10 5000
          (snd (list2lmdb example_codec example_files ''gender'' (Some ''imgs'') (Some ''masks'')
             example_rows 5000 empty_db))) = Inl (FileNotFoundError ''imgs/f2.jpg'')
   \<and> db_get (snd (list2lmdb example_codec example_files10 ''race'' (Some ''imgs'') (Some ''masks'')
          example_rows10 5000
          (snd (list2lmdb example_codec example_files ''gender'' (Some ''imgs'') (Some ''masks'')
             example_rows 5000 empty_db)))) ''__len__'' =
        Some (dumps_pyarrow example_codec (PyInt 2))"
proof -
  have 2: "list2lmdb example_codec example_files10 ''race'' (Some ''imgs'') (Some ''masks'')
          example_rows10 5000
          (snd (list2lmdb example_codec example_files ''gender'' (Some ''imgs'') (Some ''masks'')
             example_rows 5000 empty_db)) =
     (Inl (FileNotFoundError ''imgs/f2.jpg''),
      \<lparr>store = [(''0'', ''(bA;0bMA;)''), (''1'', ''(bB;1bMB;)''), (''__keys__'', ''[b0;b1;]''),
                (''__len__'', ''2''), (''__classnum__'', ''2''), (''0'', ''(bX;0bX;)'')],
       txn = [(''1'', ''(bX;0bX;)'')],
       events = [EvOpen 1204224, EvBegin, EvPut ''0'' ''(bA;0bMA;)'', EvCommit, EvBegin,
                EvPut ''1'' ''(bB;1bMB;)'', EvCommit, EvBegin, EvPut ''__keys__'' ''[b0;b1;]'',
                EvPut ''__len__'' ''2'', EvPut ''__classnum__'' ''2'', EvCommit, EvSync, EvClose,
                EvOpen 6021120, EvBegin, EvPut ''0'' ''(bX;0bX;)'', EvCommit, EvBegin,
                EvPut ''1'' ''(bX;0bX;)'']\<rparr>)"
    unfolding example_db_gender
    by (simp add: list2lmdb_def example_init10 example_iter10 run_simps)
  have 3: "dumps_pyarrow example_codec (PyInt 2) = ''2''"
    by (simp add: dumps_pyarrow_def example_codec_def format_small)
  show ?thesis
    unfolding 2 3 by (simp add: example_run_gender db_get_def)
qed

text \<open>
  C6, amended. Every call on the database may raise. The metadata keys are put only
  after every data record was resolved and put and the commit after the loop was made: in
  every run, either nothing was put or committed under a metadata key, the run ended with
  an exception and a reader finds under the three metadata keys what the database held
  before the run, or the trace of the run begins with the opening, the puts and commits
  of all records and the commit after the loop, and the committed entries are all the
  records followed by nothing or by the three metadata entries. A run that fails in the
  data phase (resolving a record, putting it, a commit or begin of the loop, the commit
  after it) is of the first kind. A run that returns normally has committed the three
  metadata entries, which a reader then finds.
\<close>

theorem C6_metadata_last:
  assumes run: "list2lmdb_f raises c files a src msrc rows w db0 = (res, db')"
  shows "\<exists>evs cs. events db' = events db0 @ evs \<and> store db' = store db0 @ cs
     \<and> ((\<exists>e. res = Inl e)
           \<and> (\<forall>kv \<in> set (puts evs) \<union> set cs. fst kv \<notin> reserved_keys)
           \<and> (\<forall>key \<in> reserved_keys. db_get db' key = db_get db0 key)
         \<or> (\<exists>ds items tail m.
               ImageListRaw_init a src msrc rows = Inr ds
               \<and> CustomRawLoader_iter files ds = map Inr items
               \<and> evs = [EvOpen (map_size_of msrc ds), EvBegin] @
                     concat (map (loop_events c w) (enumerate 0 items)) @ [EvCommit] @ tail
               \<and> cs = map (entry c) (enumerate 0 items) @ m
               \<and> (m = [] \<or> m = metadata c ds (length items))))
     \<and> (\<forall>ds e db1. ImageListRaw_init a src msrc rows = Inr ds \<longrightarrow>
            data_phase_f raises c files msrc ds w db0 = (Inl e, db1) \<longrightarrow>
              res = Inl e \<and> db' = db1
              \<and> (\<forall>kv \<in> set (puts evs) \<union> set cs. fst kv \<notin> reserved_keys)
              \<and> (\<forall>key \<in> reserved_keys. db_get db' key = db_get db0 key))
     \<and> (res = Inr () \<longrightarrow>
           (\<exists>ds items. ImageListRaw_init a src msrc rows = Inr ds
               \<and> evs = [EvOpen (map_size_of msrc ds), EvBegin] @
                     concat (map (loop_events c w) (enumerate 0 items)) @ [EvCommit] @
                     EvBegin # map put_event (metadata c ds (length items)) @
                     [EvCommit, EvSync, EvClose]
               \<and> cs = map (entry c) (enumerate 0 items) @ metadata c ds (length items)
               \<and> db_get db' ''__len__'' = Some (dumps_pyarrow c (PyInt (int (length items))))))"
proof -
  let ?A = "\<lambda>evs cs. (\<forall>kv \<in> set (puts evs) \<union> set cs. fst kv \<notin> reserved_keys)
           \<and> (\<forall>key \<in> reserved_keys. db_get db' key = db_get db0 key)"
  have A: "?A evs cs"
    if ev: "events db' = events db0 @ evs" and st: "store db' = store db0 @ cs"
      and sub: "set (puts evs) \<union> set cs \<subseteq> entry c ` S" for evs cs S
  proof -
    have nr: "\<forall>kv \<in> set (puts evs) \<union> set cs. fst kv \<notin> reserved_keys"
      using sub entries_not_reserved by blast
    have "db_get db' key = db_get db0 key" if "key \<in> reserved_keys" for key
    proof (rule db_get_unchanged [OF st])
      from nr that show "key \<notin> fst ` set cs" by auto
    qed
    with nr show ?thesis by blast
  qed
  show ?thesis
  proof (cases "ImageListRaw_init a src msrc rows")
    case (Inl e)
    from list2lmdb_f_init_Inl [OF Inl, of raises c files w db0] run
    have r: "res = Inl e" and d: "db' = db0" by simp_all
    have ev: "events db' = events db0 @ []" and st: "store db' = store db0 @ []"
      using d by simp_all
    have "set (puts []) \<union> set [] \<subseteq> entry c ` {}"
      by (simp add: puts_def)
    from A [OF ev st this] have "?A [] []" .
    with r ev st Inl show ?thesis
      by (intro exI [of _ "[]"]) auto
  next
    case (Inr ds)
    obtain x db1 where dp: "data_phase_f raises c files msrc ds w db0 = (x, db1)"
      by (cases "data_phase_f raises c files msrc ds w db0")
    show ?thesis
    proof (cases x)
      case (Inl e)
      from list2lmdb_f_data_Inl [OF Inr dp [unfolded Inl]] run
      have r: "res = Inl e" and d: "db' = db1" by simp_all
      from data_phase_f_writes [OF dp] obtain evs cs where
        ev: "events db' = events db0 @ evs" and st: "store db' = store db0 @ cs"
        and sub: "set (puts evs) \<union> set cs
                 \<subseteq> entry c ` set (delivered (enumerate 0 (CustomRawLoader_iter files ds)))"
        unfolding d by blast
      note a = A [OF ev st sub]
      have 2: "\<forall>ds' e' db1'. ImageListRaw_init a src msrc rows = Inr ds' \<longrightarrow>
            data_phase_f raises c files msrc ds' w db0 = (Inl e', db1') \<longrightarrow>
              res = Inl e' \<and> db' = db1' \<and> ?A evs cs"
        using Inr dp Inl r d a by auto
      have 3: "res \<noteq> Inr ()"
        using r by simp
      from ev st r a 2 3 show ?thesis
        by (intro exI [of _ evs] exI [of _ cs]) blast
    next
      case x: (Inr last_idx)
      from data_phase_f_Inr [OF dp [unfolded x]] obtain items where
        it: "CustomRawLoader_iter files ds = map Inr items"
        and e1: "events db1 = events db0 @ [EvOpen (map_size_of msrc ds), EvBegin] @
                 concat (map (loop_events c w) (enumerate 0 items)) @ [EvCommit]"
        and s1: "store db1 = store db0 @ map (entry c) (enumerate 0 items)"
        and l: "last_idx = (if items = [] then None else Some (length items - 1))"
        by blast
      have len: "length items = len ds"
        using arg_cong [OF it, of length] by (simp add: length_CustomRawLoader_iter)
      have "0 < len ds"
        using ImageListRaw_init_len [OF Inr] by blast
      with len have ne: "items \<noteq> []" by auto
      with l have l': "last_idx = Some (length items - 1)" by simp
      have n: "length items - 1 + 1 = length items"
        using ne by (cases items) simp_all
      obtain r' where r': "lmdb_calls raises
             (EvBegin # map put_event (metadata c ds (length items)) @ [EvCommit, EvSync, EvClose])
             db1 = (r', db')" and rr: "res = r'"
        using list2lmdb_f_data_Some [OF Inr dp [unfolded x l'], unfolded n] run
        by (cases "lmdb_calls raises
             (EvBegin # map put_event (metadata c ds (length items)) @ [EvCommit, EvSync, EvClose])
             db1") simp
      from metadata_calls [OF r'] obtain tail m where
        e2: "events db' = events db1 @ tail" and s2: "store db' = store db1 @ m"
        and m: "m = [] \<or> m = metadata c ds (length items)"
        and full: "r' = Inr () \<longrightarrow>
                 tail = EvBegin # map put_event (metadata c ds (length items)) @
                     [EvCommit, EvSync, EvClose]
                 \<and> m = metadata c ds (length items)"
        by blast
      define evs where "evs = [EvOpen (map_size_of msrc ds), EvBegin] @
                 concat (map (loop_events c w) (enumerate 0 items)) @ [EvCommit] @ tail"
      define cs where "cs = map (entry c) (enumerate 0 items) @ m"
      have ev: "events db' = events db0 @ evs"
        by (simp add: evs_def e2 e1)
      have st: "store db' = store db0 @ cs"
        by (simp add: cs_def s2 s1)
      have 1: "\<exists>ds items tail m.
               ImageListRaw_init a src msrc rows = Inr ds
               \<and> CustomRawLoader_iter files ds = map Inr items
               \<and> evs = [EvOpen (map_size_of msrc ds), EvBegin] @
                     concat (map (loop_events c w) (enumerate 0 items)) @ [EvCommit] @ tail
               \<and> cs = map (entry c) (enumerate 0 items) @ m
               \<and> (m = [] \<or> m = metadata c ds (length items))"
        using Inr it evs_def cs_def m by blast
      have 2: "\<forall>ds' e' db1'. ImageListRaw_init a src msrc rows = Inr ds' \<longrightarrow>
            data_phase_f raises c files msrc ds' w db0 = (Inl e', db1') \<longrightarrow>
              res = Inl e' \<and> db' = db1' \<and> ?A evs cs"
        using Inr dp x by auto
      have 3: "\<exists>ds items. ImageListRaw_init a src msrc rows = Inr ds
               \<and> evs = [EvOpen (map_size_of msrc ds), EvBegin] @
                     concat (map (loop_events c w) (enumerate 0 items)) @ [EvCommit] @
                     EvBegin # map put_event (metadata c ds (length items)) @
                     [EvCommit, EvSync, EvClose]
               \<and> cs = map (entry c) (enumerate 0 items) @ metadata c ds (length items)
               \<and> db_get db' ''__len__'' = Some (dumps_pyarrow c (PyInt (int (length items))))"
        if "res = Inr ()"
      proof -
        from that rr full have t: "tail = EvBegin # map put_event (metadata c ds (length items)) @
                     [EvCommit, EvSync, EvClose]" and mm: "m = metadata c ds (length items)"
          by simp_all
        have "store db' = (store db0 @ map (entry c) (enumerate 0 items)) @
            metadata c ds (length items)"
          using st by (simp add: cs_def mm)
        from db_get_metadata(2) [OF this] Inr t mm show ?thesis
          unfolding evs_def cs_def by blast
      qed
      from ev st 1 2 3 show ?thesis
        by (intro exI [of _ evs] exI [of _ cs]) blast
    qed
  qed
qed


theorem C6_metadata_last_witness:
  "list2lmdb_f example_faults example_codec example_files_all ''race'' (Some ''imgs'')
     (Some ''masks'') example_rows10 5000 empty_db =
   (Inl LmdbError,
    \<lparr>store = [(''0'', ''(bX;0bX;)'')], txn = [(''1'', ''(bX;0bX;)'')],
     events = [EvOpen 6021120, EvBegin, EvPut ''0'' ''(bX;0bX;)'', EvCommit, EvBegin,
               EvPut ''1'' ''(bX;0bX;)'']\<rparr>)
   \<and> ImageListRaw_init ''race'' (Some ''imgs'') (Some ''masks'') example_rows10 = Inr example_ds10
   \<and> data_phase_f example_faults example_codec example_files_all (Some ''masks'') example_ds10
        5000 empty_db =
      (Inl LmdbError,
       \<lparr>store = [(''0'', ''(bX;0bX;)'')], txn = [(''1'', ''(bX;0bX;)'')],
        events = [EvOpen 6021120, EvBegin, EvPut ''0'' ''(bX;0bX;)'', EvCommit, EvBegin,
                  EvPut ''1'' ''(bX;0bX;)'']\<rparr>)
   \<and> db_get \<lparr>store = [(''0'', ''(bX;0bX;)'')], txn = [(''1'', ''(bX;0bX;)'')],
              events = [EvOpen 6021120, EvBegin, EvPut ''0'' ''(bX;0bX;)'', EvCommit, EvBegin,
                        EvPut ''1'' ''(bX;0bX;)'']\<rparr> ''__len__'' = None
   \<and> db_get \<lparr>store = [(''0'', ''(bX;0bX;)'')], txn = [(''1'', ''(bX;0bX;)'')],
              events = [EvOpen 6021120, EvBegin, EvPut ''0'' ''(bX;0bX;)'', EvCommit, EvBegin,
                        EvPut ''1'' ''(bX;0bX;)'']\<rparr> ''__keys__'' = None
   \<and> db_get \<lparr>store = [(''0'', ''(bX;0bX;)'')], txn = [(''1'', ''(bX;0bX;)'')],
              events = [EvOpen 6021120, EvBegin, EvPut ''0'' ''(bX;0bX;)'', EvCommit, EvBegin,
                        EvPut ''1'' ''(bX;0bX;)'']\<rparr> ''__classnum__'' = None
   \<and> list2lmdb_f no_faults example_codec example_files10 ''race'' (Some ''imgs'')
        (Some ''masks'') example_rows10 5000 empty_db =
      (Inl (FileNotFoundError ''imgs/f2.jpg''),
       \<lparr>store = [(''0'', ''(bX;0bX;)'')], txn = [(''1'', ''(bX;0bX;)'')],
        events = [EvOpen 6021120, EvBegin, EvPut ''0'' ''(bX;0bX;)'', EvCommit, EvBegin,
                  EvPut ''1'' ''(bX;0bX;)'']\<rparr>)
   \<and> fst (list2lmdb_f no_faults example_codec example_files ''gender'' (Some ''imgs'')
          (Some ''masks'') example_rows 5000 empty_db) = Inr ()
   \<and> events (snd (list2lmdb_f no_faults example_codec example_files ''gender'' (Some ''imgs'')
          (Some ''masks'') example_rows 5000 empty_db)) =
        [EvOpen 1204224, EvBegin, EvPut ''0'' ''(bA;0bMA;)'', EvCommit, EvBegin,
         EvPut ''1'' ''(bB;1bMB;)'', EvCommit, EvBegin, EvPut ''__keys__'' ''[b0;b1;]'',
         EvPut ''__len__'' ''2'', EvPut ''__classnum__'' ''2'', EvCommit, EvSync, EvClose]
   \<and> (\<exists>ds items.
         db_get (snd (list2lmdb_f no_faults example_codec example_files ''gender'' (Some ''imgs'')
            (Some ''masks'') example_rows 5000 empty_db)) ''__len__'' =
           Some (dumps_pyarrow example_codec (PyInt (int (length items))))
         \<and> store (snd (list2lmdb_f no_faults example_codec example_files ''gender''
              (Some ''imgs'') (Some ''masks'') example_rows 5000 empty_db)) =
             map (entry example_codec) (enumerate 0 items)
               @ metadata example_codec ds (length items))"
proof -
  have e: "db_get empty_db key = None" for key
    by (simp add: db_get_def empty_db_def)
  have k: "''__len__'' \<in> reserved_keys" "''__keys__'' \<in> reserved_keys"
    "''__classnum__'' \<in> reserved_keys"
    by (simp_all add: reserved_keys_def)
  from C6_metadata_last [OF example_run10_faults] obtain evs cs where
    "\<forall>ds e db1. ImageListRaw_init ''race'' (Some ''imgs'') (Some ''masks'') example_rows10 = Inr ds \<longrightarrow>
       data_phase_f example_faults example_codec example_files_all (Some ''masks'') ds 5000
         empty_db = (Inl e, db1) \<longrightarrow>
       (Inl LmdbError :: error + unit) = Inl e
       \<and> \<lparr>store = [(''0'', ''(bX;0bX;)'')], txn = [(''1'', ''(bX;0bX;)'')],
           events = [EvOpen 6021120, EvBegin, EvPut ''0'' ''(bX;0bX;)'', EvCommit, EvBegin,
                     EvPut ''1'' ''(bX;0bX;)'']\<rparr> = db1
       \<and> (\<forall>kv \<in> set (puts evs) \<union> set cs. fst kv \<notin> reserved_keys)
       \<and> (\<forall>key \<in> reserved_keys.
             db_get \<lparr>store = [(''0'', ''(bX;0bX;)'')], txn = [(''1'', ''(bX;0bX;)'')],
                      events = [EvOpen 6021120, EvBegin, EvPut ''0'' ''(bX;0bX;)'', EvCommit,
                                EvBegin, EvPut ''1'' ''(bX;0bX;)'']\<rparr> key = db_get empty_db key)"
    by blast
  from this [rule_format, OF example_init10_ds example_data_phase_faults]
  have g: "\<forall>key \<in> reserved_keys.
             db_get \<lparr>store = [(''0'', ''(bX;0bX;)'')], txn = [(''1'', ''(bX;0bX;)'')],
                      events = [EvOpen 6021120, EvBegin, EvPut ''0'' ''(bX;0bX;)'', EvCommit,
                                EvBegin, EvPut ''1'' ''(bX;0bX;)'']\<rparr> key = None"
    unfolding e by blast
  have r10: "list2lmdb_f no_faults example_codec example_files10 ''race'' (Some ''imgs'')
        (Some ''masks'') example_rows10 5000 empty_db =
      (Inl (FileNotFoundError ''imgs/f2.jpg''),
       \<lparr>store = [(''0'', ''(bX;0bX;)'')], txn = [(''1'', ''(bX;0bX;)'')],
        events = [EvOpen 6021120, EvBegin, EvPut ''0'' ''(bX;0bX;)'', EvCommit, EvBegin,
                  EvPut ''1'' ''(bX;0bX;)'']\<rparr>)"
    unfolding list2lmdb_f_no_faults by (rule example_run10)
  have ok: "fst (list2lmdb_f no_faults example_codec example_files ''gender'' (Some ''imgs'')
          (Some ''masks'') example_rows 5000 empty_db) = Inr ()"
    unfolding list2lmdb_f_no_faults by (rule example_run_gender)
  have evs: "events (snd (list2lmdb_f no_faults example_codec example_files ''gender''
          (Some ''imgs'') (Some ''masks'') example_rows 5000 empty_db)) =
        [EvOpen 1204224, EvBegin, EvPut ''0'' ''(bA;0bMA;)'', EvCommit, EvBegin,
         EvPut ''1'' ''(bB;1bMB;)'', EvCommit, EvBegin, EvPut ''__keys__'' ''[b0;b1;]'',
         EvPut ''__len__'' ''2'', EvPut ''__classnum__'' ''2'', EvCommit, EvSync, EvClose]"
    unfolding list2lmdb_f_no_faults by (simp add: example_db_gender)
  from C6_metadata_last [OF surjective_pairing, of no_faults example_codec example_files
      "''gender''" "Some ''imgs''" "Some ''masks''" example_rows 5000 empty_db] ok
  have full: "\<exists>ds items.
         db_get (snd (list2lmdb_f no_faults example_codec example_files ''gender'' (Some ''imgs'')
            (Some ''masks'') example_rows 5000 empty_db)) ''__len__'' =
           Some (dumps_pyarrow example_codec (PyInt (int (length items))))
         \<and> store (snd (list2lmdb_f no_faults example_codec example_files ''gender''
              (Some ''imgs'') (Some ''masks'') example_rows 5000 empty_db)) =
             map (entry example_codec) (enumerate 0 items)
               @ metadata example_codec ds (length items)"
    by (auto simp: empty_db_def)
  from example_run10_faults example_init10_ds example_data_phase_faults
    g [THEN bspec, OF k(1)] g [THEN bspec, OF k(2)] g [THEN bspec, OF k(3)] r10 ok evs full
  show ?thesis
    by (intro conjI)
qed


subsection \<open>The commit schedule (C7)\<close>






end
